theory Spec2Isabelle
  imports Complex_Main "HOL-Library.Word"
begin

section \<open>JavaScript strings\<close>

text \<open>
  A JavaScript string is a sequence of UTF-16 code units. Equality (\<open>===\<close>),
  \<open>length\<close>, \<open>substring\<close>, \<open>split\<close> and \<open>trim\<close> all work on code units,
  so a string is modelled as a list of 16-bit words. \<open>js\<close> writes an ASCII literal.
\<close>

type_synonym jstring = "16 word list"

definition js :: "string \<Rightarrow> jstring" where
  "js s = map of_char s"

text \<open>
  \<open>String.prototype.trim\<close> strips the code units that ECMAScript calls WhiteSpace or
  LineTerminator from both ends: U+0009..U+000D, U+0020, U+00A0, U+1680,
  U+2000..U+200A, U+2028, U+2029, U+202F, U+205F, U+3000 and U+FEFF.
\<close>

definition isWhiteSpace :: "16 word \<Rightarrow> bool" where
  "isWhiteSpace c \<longleftrightarrow>
     c \<in> set [9, 10, 11, 12, 13, 32, 160, 5760, 8232, 8233, 8239, 8287, 12288, 65279]
     \<or> (8192 \<le> c \<and> c \<le> 8202)"

definition trim :: "jstring \<Rightarrow> jstring" where
  "trim s = rev (dropWhile isWhiteSpace (rev (dropWhile isWhiteSpace s)))"

text \<open>\<open>s.substring(0, n)\<close>: the first \<open>n\<close> code units, or all of \<open>s\<close> when it is shorter.\<close>

definition substring0 :: "jstring \<Rightarrow> nat \<Rightarrow> jstring" where
  "substring0 s n = take n s"

text \<open>
  \<open>s.split(sep)\<close> for a one-unit separator: the pieces between the separators, in
  order; \<open>''''.split('','')\<close> is the one-element array holding the empty string.
\<close>

fun splitOn :: "16 word \<Rightarrow> jstring \<Rightarrow> jstring list" where
  "splitOn sep [] = [[]]"
| "splitOn sep (c # cs) =
     (if c = sep then [] # splitOn sep cs
      else (case splitOn sep cs of
              [] \<Rightarrow> [[c]]
            | w # ws \<Rightarrow> (c # w) # ws))"

definition comma :: "16 word" where
  "comma = 44"

section \<open>Data model (types.ts)\<close>

datatype Program = ThaiProgramme | EnglishProgramme | Kindergarten

text \<open>
  \<open>BookingType\<close> is a pair of Thai words: \<open>Book\<close> stands for the word for a reservation,
  \<open>Borrow\<close> for the word for a borrowing (immediate use).
\<close>

datatype BookingType = Book | Borrow

datatype BookingStatus = Booked | InUse | AwaitingReturn | Returned | Cancelled

text \<open>
  A JavaScript value, as far as JSON can carry one: what the gateway may deliver where
  the code expects something else. Numbers are the finite ones.
\<close>

datatype js_value =
    JUndefined
  | JNull
  | JBoolean bool
  | JNumber real
  | JString jstring
  | JArray "js_value list"
  | JObject "(jstring \<times> js_value) list"

text \<open>\<open>typeof v === 'string'\<close> and \<open>Array.isArray(v)\<close>.\<close>

definition isString :: "js_value \<Rightarrow> bool" where
  "isString v = (case v of JString _ \<Rightarrow> True | _ \<Rightarrow> False)"

definition isArray :: "js_value \<Rightarrow> bool" where
  "isArray v = (case v of JArray _ \<Rightarrow> True | _ \<Rightarrow> False)"

text \<open>
  The \<open>Booking\<close> interface, in two layers: \<open>bookingData_of\<close> holds the fields of
  \<open>Omit<Booking, 'id' | 'status' | 'createdAt'>\<close> (what the form submits and what
  \<open>api.createBooking\<close> sends), and \<open>booking_of\<close> extends it with the three
  remaining fields. \<open>id\<close> is written \<open>id'\<close>.

  The records are polymorphic in the equipment field. The interface declares it
  \<open>string[]\<close>, but the declaration is not checked when the program runs: the bookings of
  the cache come out of \<open>sanitizeBooking\<close> or out of the form, so their equipment is an
  array, and its items are whatever JavaScript values were put there (\<open>booking\<close>). The
  value that \<open>sanitizeBooking\<close> receives is declared \<open>any\<close> and holds any value in the
  equipment field (\<open>raw_booking\<close>); the function reads no other field, and the other
  fields are taken as the interface declares them.
\<close>

record 'e bookingData_of =
  teacherName :: jstring
  program :: Program
  classroom :: jstring
  period :: int
  bookingDate :: jstring
  learningUnitNumber :: jstring
  learningUnitName :: jstring
  lessonPlanName :: jstring
  equipment :: 'e
  type :: BookingType

record 'e booking_of = "'e bookingData_of" +
  id' :: int
  status :: BookingStatus
  createdAt :: jstring

type_synonym bookingData = "js_value list bookingData_of"

type_synonym booking = "js_value list booking_of"

type_synonym raw_booking = "js_value booking_of"

section \<open>sanitizeBooking (App.tsx)\<close>

text \<open>
  \<open>Array.isArray(booking.equipment)\<close> holds exactly of an array, which is then taken as
  it is, whatever its items; \<open>typeof booking.equipment === 'string'\<close> holds exactly of a
  string, which is split at the commas, each piece trimmed and the empty pieces dropped;
  for any other value \<open>equipmentArray\<close> keeps its initial value, the empty array.
\<close>

definition equipmentArray :: "js_value \<Rightarrow> js_value list" where
  "equipmentArray e =
     (case e of
        JArray xs \<Rightarrow> xs
      | JString s \<Rightarrow> map JString (filter (\<lambda>e. length e > 0) (map trim (splitOn comma s)))
      | _ \<Rightarrow> [])"

definition sanitizeBooking :: "raw_booking \<Rightarrow> booking" where
  "sanitizeBooking b =
     \<lparr> teacherName = teacherName b, program = program b,
       classroom = classroom b, period = period b, bookingDate = bookingDate b,
       learningUnitNumber = learningUnitNumber b, learningUnitName = learningUnitName b,
       lessonPlanName = lessonPlanName b,
       equipment = equipmentArray (equipment b), type = type b,
       id' = id' b, status = status b, createdAt = createdAt b \<rparr>"

section \<open>The booking store (BookingsProvider, App.tsx)\<close>

text \<open>
  What the provider does to the outside world is kept in a log, in the order of the
  source's statements: every \<open>setBookings\<close> call with the cache it produces, and every
  request handed to the gateway (api.ts sends one POST per call, carrying the action
  name and the payload).
\<close>

datatype request =
    CreateBookingReq bookingData
  | UpdateBookingStatusReq int BookingStatus
  | DeleteBookingReq int
  | GetBookingsReq

datatype event = SetBookings "booking list" | Sent request

text \<open>
  A thrown JavaScript error: the \<open>Error\<close> that \<open>fetchFromScript\<close> throws with its
  message, the \<open>RangeError\<close> of the platform's date formatter, or the \<open>TypeError\<close> of
  a call of \<open>trim\<close> on a value that is not a string.
\<close>

datatype js_error = Error jstring | RangeError | TypeError

record store =
  bookings :: "booking list"
  log :: "event list"

definition setBookings :: "(booking list \<Rightarrow> booking list) \<Rightarrow> store \<Rightarrow> store" where
  "setBookings f st =
     st\<lparr> bookings := f (bookings st), log := log st @ [SetBookings (f (bookings st))] \<rparr>"

definition send :: "request \<Rightarrow> store \<Rightarrow> store" where
  "send r st = st\<lparr> log := log st @ [Sent r] \<rparr>"

subsection \<open>createBooking\<close>

text \<open>
  \<open>now\<close> is the value of \<open>Date.now()\<close> and \<open>nowISO\<close> that of
  \<open>new Date().toISOString()\<close> at the call. The object literal
  \<open>{id: tempId, status: newStatus, createdAt: ..., ...bookingData}\<close> is the extension of
  \<open>bookingData\<close> by the three fields.
\<close>

definition newStatus :: "bookingData \<Rightarrow> BookingStatus" where
  "newStatus bookingData = (if type bookingData = Borrow then InUse else Booked)"

definition optimisticBooking :: "int \<Rightarrow> jstring \<Rightarrow> bookingData \<Rightarrow> booking" where
  "optimisticBooking now nowISO bookingData =
     bookingData_of.extend bookingData
       (booking_of.fields now (newStatus bookingData) nowISO)"

text \<open>
  The function is asynchronous: it runs up to \<open>await api.createBooking(bookingData)\<close>
  (\<open>createBooking_begin\<close>: the optimistic insertion, then the request), and resumes
  when the gateway has answered (\<open>createBooking_settle\<close>), with the response
  \<open>Inr finalBooking\<close> or the thrown error \<open>Inl error\<close>. Both \<open>setBookings\<close> calls
  take an updater function, so the second half works on the cache as it is when the
  answer arrives. \<open>createBooking\<close> is the call with nothing happening in between.
  The result is \<open>Inl error\<close> when the function rethrows.
\<close>

definition createBooking_begin :: "int \<Rightarrow> jstring \<Rightarrow> bookingData \<Rightarrow> store \<Rightarrow> store" where
  "createBooking_begin now nowISO bookingData st =
     send (CreateBookingReq bookingData)
       (setBookings (\<lambda>prev. optimisticBooking now nowISO bookingData # prev) st)"

definition createBooking_settle ::
  "int \<Rightarrow> js_error + raw_booking \<Rightarrow> store \<Rightarrow> store \<times> (js_error + unit)" where
  "createBooking_settle tempId response st =
     (case response of
        Inr finalBooking \<Rightarrow>
          (let processedFinalBooking = sanitizeBooking finalBooking
           in (setBookings (map (\<lambda>b. if id' b = tempId then processedFinalBooking else b)) st,
               Inr ()))
      | Inl error \<Rightarrow>
          (setBookings (filter (\<lambda>b. id' b \<noteq> tempId)) st, Inl error))"

definition createBooking ::
  "int \<Rightarrow> jstring \<Rightarrow> bookingData \<Rightarrow> js_error + raw_booking \<Rightarrow> store
     \<Rightarrow> store \<times> (js_error + unit)" where
  "createBooking now nowISO bookingData response st =
     createBooking_settle now response (createBooking_begin now nowISO bookingData st)"

subsection \<open>fetchBookings\<close>

text \<open>
  \<open>fetchBookings(isSilent)\<close> asks the gateway for all bookings, sanitizes each record,
  sorts them by \<open>createdAt\<close>, newest first, and replaces the cache. It catches every
  error itself: a failed request leaves the cache as it is and nothing is rethrown (the
  dialog of the non-silent mode and the \<open>loading\<close> flag are presentation and are left
  out). \<open>sortByCreatedAt\<close> stands for \<open>Array.prototype.sort\<close> with the source's
  comparator; no property below depends on what it does.
\<close>

definition fetchBookings ::
  "(booking list \<Rightarrow> booking list) \<Rightarrow> js_error + raw_booking list \<Rightarrow> store \<Rightarrow> store" where
  "fetchBookings sortByCreatedAt response st =
     (case response of
        Inr data \<Rightarrow>
          setBookings (\<lambda>_. sortByCreatedAt (map sanitizeBooking data)) (send GetBookingsReq st)
      | Inl error \<Rightarrow> send GetBookingsReq st)"

subsection \<open>updateBookingStatus and deleteBooking\<close>

text \<open>
  Both take the snapshot \<open>originalBookings = [...bookings]\<close>, apply the optimistic
  change and send the request (\<open>_begin\<close>). When the gateway has answered (\<open>_settle\<close>):
  on success they await the silent refresh, whose own outcome is \<open>refresh\<close>; on failure
  they put the snapshot back and rethrow.

  The snapshot copies the variable \<open>bookings\<close> of the render in which the function was
  created: \<open>closureBookings\<close>, the cache as that render saw it. The optimistic change goes
  through an updater function and so works on the cache of the store as it is at the
  call. The two are the same only if the cache has not changed since that render; the
  callers (\<open>handleReturn\<close>, \<open>handleCancelBooking\<close>) await a confirmation dialog between
  the render and the call.

  The \<open>Booking\<close> that a successful status update returns is not used. The parameter
  \<open>id\<close> is written \<open>targetId\<close>.
\<close>

definition updateBookingStatus_begin :: "int \<Rightarrow> BookingStatus \<Rightarrow> store \<Rightarrow> store" where
  "updateBookingStatus_begin targetId status' st =
     send (UpdateBookingStatusReq targetId status')
       (setBookings (map (\<lambda>b. if id' b = targetId then b\<lparr> status := status' \<rparr> else b)) st)"

definition updateBookingStatus_settle ::
  "(booking list \<Rightarrow> booking list) \<Rightarrow> booking list \<Rightarrow> js_error + unit
     \<Rightarrow> js_error + raw_booking list \<Rightarrow> store \<Rightarrow> store \<times> (js_error + unit)" where
  "updateBookingStatus_settle sortByCreatedAt originalBookings response refresh st =
     (case response of
        Inr _ \<Rightarrow> (fetchBookings sortByCreatedAt refresh st, Inr ())
      | Inl error \<Rightarrow> (setBookings (\<lambda>_. originalBookings) st, Inl error))"

definition updateBookingStatus ::
  "(booking list \<Rightarrow> booking list) \<Rightarrow> booking list \<Rightarrow> int \<Rightarrow> BookingStatus
     \<Rightarrow> js_error + unit \<Rightarrow> js_error + raw_booking list \<Rightarrow> store
     \<Rightarrow> store \<times> (js_error + unit)" where
  "updateBookingStatus sortByCreatedAt closureBookings targetId status' response refresh st =
     (let originalBookings = closureBookings
      in updateBookingStatus_settle sortByCreatedAt originalBookings response refresh
           (updateBookingStatus_begin targetId status' st))"

definition deleteBooking_begin :: "int \<Rightarrow> store \<Rightarrow> store" where
  "deleteBooking_begin targetId st =
     send (DeleteBookingReq targetId) (setBookings (filter (\<lambda>b. id' b \<noteq> targetId)) st)"

definition deleteBooking_settle ::
  "(booking list \<Rightarrow> booking list) \<Rightarrow> booking list \<Rightarrow> js_error + unit
     \<Rightarrow> js_error + raw_booking list \<Rightarrow> store \<Rightarrow> store \<times> (js_error + unit)" where
  "deleteBooking_settle sortByCreatedAt originalBookings response refresh st =
     (case response of
        Inr _ \<Rightarrow> (fetchBookings sortByCreatedAt refresh st, Inr ())
      | Inl error \<Rightarrow> (setBookings (\<lambda>_. originalBookings) st, Inl error))"

definition deleteBooking ::
  "(booking list \<Rightarrow> booking list) \<Rightarrow> booking list \<Rightarrow> int
     \<Rightarrow> js_error + unit \<Rightarrow> js_error + raw_booking list \<Rightarrow> store
     \<Rightarrow> store \<times> (js_error + unit)" where
  "deleteBooking sortByCreatedAt closureBookings targetId response refresh st =
     (let originalBookings = closureBookings
      in deleteBooking_settle sortByCreatedAt originalBookings response refresh
           (deleteBooking_begin targetId st))"

section \<open>The conflict check (handleSubmit, App.tsx)\<close>

definition activeStatuses :: "BookingStatus list" where
  "activeStatuses = [Booked, InUse, AwaitingReturn]"

text \<open>
  The names are those of the locals of \<open>handleSubmit\<close>; \<open>bookingDate'\<close>, \<open>period'\<close>
  and \<open>classroom'\<close> are the form's values (\<open>period'\<close> is \<open>Number(period)\<close>).
\<close>

definition bookingsAtSameTime :: "booking list \<Rightarrow> jstring \<Rightarrow> int \<Rightarrow> booking list" where
  "bookingsAtSameTime bs bookingDate' period' =
     filter (\<lambda>b. let bookingDatePart = substring0 (bookingDate b) 10
                 in bookingDatePart = bookingDate' \<and> period b = period'
                    \<and> status b \<in> set activeStatuses) bs"

definition isClassroomConflict :: "booking list \<Rightarrow> jstring \<Rightarrow> int \<Rightarrow> jstring \<Rightarrow> bool" where
  "isClassroomConflict bs bookingDate' period' classroom' \<longleftrightarrow>
     list_ex (\<lambda>b. classroom b = classroom') (bookingsAtSameTime bs bookingDate' period')"

text \<open>
  \<open>b.equipment.map(eq => eq.trim())\<close>: an item that is a string is trimmed; on any
  other item the call of \<open>trim\<close> throws a \<open>TypeError\<close>, which ends the computation.
\<close>

fun trimItems :: "js_value list \<Rightarrow> js_error + jstring list" where
  "trimItems [] = Inr []"
| "trimItems (eq # eqs) =
     (case eq of
        JString s \<Rightarrow>
          (case trimItems eqs of Inl e \<Rightarrow> Inl e | Inr rest \<Rightarrow> Inr (trim s # rest))
      | _ \<Rightarrow> Inl TypeError)"

text \<open>\<open>flatMap\<close> over the bookings, in order.\<close>

fun flatTrimItems :: "booking list \<Rightarrow> js_error + jstring list" where
  "flatTrimItems [] = Inr []"
| "flatTrimItems (b # bs) =
     (case trimItems (equipment b) of
        Inl e \<Rightarrow> Inl e
      | Inr items \<Rightarrow>
          (case flatTrimItems bs of Inl e \<Rightarrow> Inl e | Inr rest \<Rightarrow> Inr (items @ rest)))"

definition allBookedEquipmentAtTime ::
  "booking list \<Rightarrow> jstring \<Rightarrow> int \<Rightarrow> js_error + jstring list" where
  "allBookedEquipmentAtTime bs bookingDate' period' =
     flatTrimItems (bookingsAtSameTime bs bookingDate' period')"

text \<open>
  \<open>finalEquipmentList.some(reqEq => allBookedEquipmentAtTime.includes(reqEq.trim()))\<close>,
  on the array that \<open>allBookedEquipmentAtTime\<close> has given.
\<close>

definition isEquipmentConflict :: "jstring list \<Rightarrow> jstring list \<Rightarrow> bool" where
  "isEquipmentConflict allBooked finalEquipmentList \<longleftrightarrow>
     list_ex (\<lambda>reqEq. trim reqEq \<in> set allBooked) finalEquipmentList"

text \<open>
  How the checks end, in the source's order: the classroom check shows its dialog and
  returns; then the equipment of the bookings at the same time is collected, which may
  throw; then the equipment check shows its dialog and returns; only when both checks
  pass does control reach \<open>createBooking\<close>.
\<close>

datatype verdict = ClassroomConflict | EquipmentConflict | Accepted | Threw js_error

definition conflictCheck ::
  "booking list \<Rightarrow> jstring \<Rightarrow> int \<Rightarrow> jstring \<Rightarrow> jstring list \<Rightarrow> verdict" where
  "conflictCheck bs bookingDate' period' classroom' finalEquipmentList =
     (if isClassroomConflict bs bookingDate' period' classroom' then ClassroomConflict
      else
        (case allBookedEquipmentAtTime bs bookingDate' period' of
           Inl e \<Rightarrow> Threw e
         | Inr allBooked \<Rightarrow>
             if isEquipmentConflict allBooked finalEquipmentList then EquipmentConflict
             else Accepted))"

subsection \<open>handleSubmit\<close>

text \<open>
  The state of the booking form. \<open>program\<close> and \<open>period\<close> are the empty string until
  chosen (\<open>None\<close>); a field is falsy when it is the empty string or \<open>0\<close>.
  \<open>Number(period)\<close> is \<open>0\<close> for the empty string.
\<close>

record form =
  type_in :: BookingType
  teacherName_in :: jstring
  program_in :: "Program option"
  classroom_in :: jstring
  period_in :: "int option"
  bookingDate_in :: jstring
  learningUnitNumber_in :: jstring
  learningUnitName_in :: jstring
  lessonPlanName_in :: jstring
  selectedEquipment :: "jstring list"
  otherEquipment :: jstring

definition Number :: "int option \<Rightarrow> int" where
  "Number p = (case p of None \<Rightarrow> 0 | Some n \<Rightarrow> n)"

definition formIncomplete :: "form \<Rightarrow> bool" where
  "formIncomplete f \<longleftrightarrow>
     teacherName_in f = [] \<or> program_in f = None \<or> classroom_in f = []
     \<or> period_in f = None \<or> period_in f = Some 0 \<or> bookingDate_in f = []
     \<or> learningUnitNumber_in f = [] \<or> learningUnitName_in f = []
     \<or> lessonPlanName_in f = []
     \<or> (length (selectedEquipment f) = 0 \<and> trim (otherEquipment f) = [])"

definition finalEquipmentList :: "form \<Rightarrow> jstring list" where
  "finalEquipmentList f =
     map trim (selectedEquipment f)
     @ (if trim (otherEquipment f) \<noteq> [] then [trim (otherEquipment f)] else [])"

text \<open>
  The argument of \<open>createBooking\<close>. It is built only after the validation, where
  \<open>program\<close> is known to be chosen.
\<close>

definition submittedData :: "form \<Rightarrow> bookingData" where
  "submittedData f =
     \<lparr> teacherName = teacherName_in f, program = the (program_in f),
       classroom = classroom_in f, period = Number (period_in f),
       bookingDate = bookingDate_in f, learningUnitNumber = learningUnitNumber_in f,
       learningUnitName = learningUnitName_in f, lessonPlanName = lessonPlanName_in f,
       equipment = map JString (finalEquipmentList f), type = type_in f \<rparr>"

text \<open>
  What the user sees at the end of \<open>handleSubmit\<close>: the validation warning, one of the
  two conflict dialogs, the success dialog, or the save-error dialog shown when the
  conflict check or \<open>createBooking\<close> has thrown (the \<open>catch\<close> reports it and does not
  rethrow).
\<close>

datatype outcome =
    ValidationError
  | Rejected verdict
  | BookingSuccess
  | BookingSaveError

definition handleSubmit ::
  "form \<Rightarrow> int \<Rightarrow> jstring \<Rightarrow> js_error + raw_booking \<Rightarrow> store \<Rightarrow> store \<times> outcome" where
  "handleSubmit f now nowISO response st =
     (if formIncomplete f then (st, ValidationError)
      else
        (case conflictCheck (bookings st) (bookingDate_in f) (Number (period_in f))
                (classroom_in f) (finalEquipmentList f) of
           ClassroomConflict \<Rightarrow> (st, Rejected ClassroomConflict)
         | EquipmentConflict \<Rightarrow> (st, Rejected EquipmentConflict)
         | Threw e \<Rightarrow> (st, BookingSaveError)
         | Accepted \<Rightarrow>
             (case createBooking now nowISO (submittedData f) response st of
                (st', Inr _) \<Rightarrow> (st', BookingSuccess)
              | (st', Inl error) \<Rightarrow> (st', BookingSaveError))))"

section \<open>Dates of the platform\<close>

text \<open>
  \<open>new Date(string)\<close> and \<open>Intl.DateTimeFormat\<close> belong to the JavaScript platform,
  not to the repository; they are modelled after ECMAScript (ECMA-262, Date Time String
  Format) and ECMA-402.

  A time value is a number of milliseconds since 1970-01-01T00:00:00Z; \<open>None\<close> is
  \<open>NaN\<close>, the time value of an Invalid Date.
\<close>

definition msPerDay :: int where
  "msPerDay = 86400000"

definition isLeapYear :: "int \<Rightarrow> bool" where
  "isLeapYear y \<longleftrightarrow> y mod 4 = 0 \<and> (y mod 100 \<noteq> 0 \<or> y mod 400 = 0)"

definition daysInMonth :: "int \<Rightarrow> int \<Rightarrow> int" where
  "daysInMonth y m =
     (if m = 2 then (if isLeapYear y then 29 else 28)
      else if m \<in> set [4, 6, 9, 11] then 30 else 31)"

text \<open>
  The day number of a date of the proleptic Gregorian calendar (day 0 is 1970-01-01), and
  the date of a day number, computed by 400-year eras with the year starting in March.
\<close>

definition daysFromCivil :: "int \<Rightarrow> int \<Rightarrow> int \<Rightarrow> int" where
  "daysFromCivil y m d =
     (let y1 = (if m \<le> 2 then y - 1 else y);
          era = y1 div 400;
          yoe = y1 - era * 400;
          mp = (if m > 2 then m - 3 else m + 9);
          doy = (153 * mp + 2) div 5 + d - 1;
          doe = yoe * 365 + yoe div 4 - yoe div 100 + doy
      in era * 146097 + doe - 719468)"

definition civilFromDays :: "int \<Rightarrow> int \<times> int \<times> int" where
  "civilFromDays z0 =
     (let z = z0 + 719468;
          era = z div 146097;
          doe = z - era * 146097;
          yoe = (doe - doe div 1460 + doe div 36524 - doe div 146096) div 365;
          doy = doe - (365 * yoe + yoe div 4 - yoe div 100);
          mp = (5 * doy + 2) div 153;
          d = doy - (153 * mp + 2) div 5 + 1;
          m = (if mp < 10 then mp + 3 else mp - 9);
          y = yoe + era * 400 + (if m \<le> 2 then 1 else 0)
      in (y, m, d))"

subsection \<open>Parsing\<close>

definition digitVal :: "16 word \<Rightarrow> int option" where
  "digitVal c = (if 48 \<le> c \<and> c \<le> 57 then Some (uint c - 48) else None)"

fun decimalFrom :: "int \<Rightarrow> jstring \<Rightarrow> int option" where
  "decimalFrom acc [] = Some acc"
| "decimalFrom acc (c # cs) =
     (case digitVal c of None \<Rightarrow> None | Some d \<Rightarrow> decimalFrom (10 * acc + d) cs)"

definition decimal :: "jstring \<Rightarrow> int option" where
  "decimal s = (if s = [] then None else decimalFrom 0 s)"

text \<open>\<open>YYYY-MM-DD\<close>, a date that exists: the day number.\<close>

definition parseDatePart :: "jstring \<Rightarrow> int option" where
  "parseDatePart s =
     (if length s = 10 \<and> s ! 4 = 45 \<and> s ! 7 = 45 then
        (case (decimal (take 4 s), decimal (take 2 (drop 5 s)), decimal (drop 8 s)) of
           (Some y, Some m, Some d) \<Rightarrow>
             (if 1 \<le> m \<and> m \<le> 12 \<and> 1 \<le> d \<and> d \<le> daysInMonth y m
              then Some (daysFromCivil y m d) else None)
         | _ \<Rightarrow> None)
      else None)"

text \<open>\<open>HH:mm\<close>, \<open>HH:mm:ss\<close> or \<open>HH:mm:ss.sss\<close>: the milliseconds since midnight.\<close>

definition parseTimePart :: "jstring \<Rightarrow> int option" where
  "parseTimePart s =
     (if length s \<in> set [5, 8, 12] \<and> s ! 2 = 58
         \<and> (if length s \<ge> 8 then s ! 5 = 58 else True)
         \<and> (if length s = 12 then s ! 8 = 46 else True) then
        (case (decimal (take 2 s), decimal (take 2 (drop 3 s)),
               if length s \<ge> 8 then decimal (take 2 (drop 6 s)) else Some 0,
               if length s = 12 then decimal (drop 9 s) else Some 0) of
           (Some h, Some mi, Some sec, Some ms) \<Rightarrow>
             (if h \<le> 23 \<and> mi \<le> 59 \<and> sec \<le> 59
              then Some (((h * 60 + mi) * 60 + sec) * 1000 + ms) else None)
         | _ \<Rightarrow> None)
      else None)"

text \<open>
  The part of \<open>Date.parse\<close> that the standard fixes and that does not depend on the
  device: a date alone (\<open>YYYY-MM-DD\<close>, taken as UTC midnight), or a date, \<open>T\<close>, a time
  and the UTC designator \<open>Z\<close>, with every field in range.
\<close>

definition isoParse :: "jstring \<Rightarrow> int option" where
  "isoParse s =
     (if length s = 10 then
        (case parseDatePart s of Some day \<Rightarrow> Some (day * msPerDay) | None \<Rightarrow> None)
      else if length s > 11 \<and> s ! 10 = 84 \<and> last s = 90 then
        (case (parseDatePart (take 10 s), parseTimePart (butlast (drop 11 s))) of
           (Some day, Some t) \<Rightarrow> Some (day * msPerDay + t)
         | _ \<Rightarrow> None)
      else None)"

text \<open>
  Every other string is left to \<open>engine\<close>, a parameter: forms without a UTC offset are
  read in the device's time zone, and what is not in the standard's format is parsed as the
  JavaScript engine sees fit (or is \<open>NaN\<close>). The theorems hold for every engine.
\<close>

definition Date_parse :: "(jstring \<Rightarrow> int option) \<Rightarrow> jstring \<Rightarrow> int option" where
  "Date_parse engine s = (case isoParse s of Some t \<Rightarrow> Some t | None \<Rightarrow> engine s)"

definition timeClip :: "int option \<Rightarrow> int option" where
  "timeClip t =
     (case t of
        None \<Rightarrow> None
      | Some v \<Rightarrow> if \<bar>v\<bar> \<le> 8640000000000000 then Some v else None)"

subsection \<open>Formatting\<close>

function showDec :: "int \<Rightarrow> jstring" where
  "showDec n = (if n < 10 then [word_of_int (48 + n)] else showDec (n div 10) @ [word_of_int (48 + n mod 10)])"
  by pat_completeness auto
termination
  by (relation "measure nat") auto

declare showDec.simps [simp del]

text \<open>Number to string, for an integer (below \<open>10\<^sup>2\<^sup>1\<close> in size, where JavaScript writes all digits).\<close>

definition showInt :: "int \<Rightarrow> jstring" where
  "showInt n = (if n < 0 then 45 # showDec (- n) else showDec n)"

definition pad2 :: "int \<Rightarrow> jstring" where
  "pad2 n = (if n < 10 then 48 # showDec n else showDec n)"

text \<open>
  The UTC offset of the zone Asia/Bangkok (IANA time zone database): 6:42:04 until
  1920-04-01 local time, seven hours since. There is no daylight saving time.
\<close>

definition bangkokOffset :: "int \<Rightarrow> int" where
  "bangkokOffset t = (if t < - 1570084924000 then 24124000 else 25200000)"

text \<open>
  \<open>new Intl.DateTimeFormat('en-CA', {timeZone: 'Asia/Bangkok'}).format(date)\<close>: the
  pattern of the locale is \<open>y-MM-dd\<close>, with the year of the era (1 for year 0) in as
  many digits as it has. An Invalid Date makes \<open>format\<close> throw a \<open>RangeError\<close>.
\<close>

definition formatEnCA :: "int \<Rightarrow> jstring" where
  "formatEnCA t =
     (case civilFromDays ((t + bangkokOffset t) div msPerDay) of
        (y, m, d) \<Rightarrow> showDec (if y \<ge> 1 then y else 1 - y) @ [45] @ pad2 m @ [45] @ pad2 d)"

definition bangkokDate :: "(jstring \<Rightarrow> int option) \<Rightarrow> jstring \<Rightarrow> js_error + jstring" where
  "bangkokDate engine s =
     (case timeClip (Date_parse engine s) of
        None \<Rightarrow> Inl RangeError
      | Some t \<Rightarrow> Inr (formatEnCA t))"

section \<open>The schedule projection (bookingsForDateMap, App.tsx)\<close>

text \<open>
  The \<open>filter\<close> callback formats the date of every booking before it looks at the
  status; an exception thrown by the callback ends the whole computation.
\<close>

fun filterForDate ::
  "(jstring \<Rightarrow> int option) \<Rightarrow> jstring \<Rightarrow> booking list \<Rightarrow> js_error + booking list" where
  "filterForDate engine selectedDate [] = Inr []"
| "filterForDate engine selectedDate (b # bs) =
     (case bangkokDate engine (bookingDate b) of
        Inl e \<Rightarrow> Inl e
      | Inr bookingDateInBangkok \<Rightarrow>
          (case filterForDate engine selectedDate bs of
             Inl e \<Rightarrow> Inl e
           | Inr rest \<Rightarrow>
               Inr (if bookingDateInBangkok = selectedDate \<and> status b \<in> set activeStatuses
                    then b # rest else rest)))"

text \<open>The key of the \<open>Map\<close>: the template string \<open>`${classroom}-${period}`\<close>.\<close>

definition slotKey :: "jstring \<Rightarrow> int \<Rightarrow> jstring" where
  "slotKey classroom' period' = classroom' @ [45] @ showInt period'"

definition bookingsForDateMap ::
  "(jstring \<Rightarrow> int option) \<Rightarrow> booking list \<Rightarrow> jstring
     \<Rightarrow> js_error + (jstring \<rightharpoonup> booking)" where
  "bookingsForDateMap engine bs selectedDate =
     (case filterForDate engine selectedDate bs of
        Inl e \<Rightarrow> Inl e
      | Inr matching \<Rightarrow>
          Inr (fold (\<lambda>b m. m(slotKey (classroom b) (period b) \<mapsto> b)) matching Map.empty))"

text \<open>
  The lookup of the schedule grid, \<open>bookingsForDateMap.get(`${classroom}-${period.id}`)\<close>:
  the booking shown in the cell of a classroom and a period, if any.
\<close>

definition bookingDetails ::
  "(jstring \<Rightarrow> int option) \<Rightarrow> booking list \<Rightarrow> jstring \<Rightarrow> jstring \<Rightarrow> int
     \<Rightarrow> js_error + booking option" where
  "bookingDetails engine bs selectedDate classroom' period' =
     (case bookingsForDateMap engine bs selectedDate of
        Inl e \<Rightarrow> Inl e
      | Inr m \<Rightarrow> Inr (m (slotKey classroom' period')))"

definition validDate :: "(jstring \<Rightarrow> int option) \<Rightarrow> jstring \<Rightarrow> bool" where
  "validDate engine s = (case bangkokDate engine s of Inl _ \<Rightarrow> False | Inr _ \<Rightarrow> True)"

section \<open>Sample data\<close>

text \<open>
  The active booking of the scenarios: classroom P.1A TP, 22 July 2024, period 3,
  one television, status Booked.
\<close>

definition sampleData :: bookingData where
  "sampleData =
     \<lparr> teacherName = js ''Kru Mali'', program = ThaiProgramme, classroom = js ''P.1A TP'',
       period = 3, bookingDate = js ''2024-07-22'', learningUnitNumber = js ''1'',
       learningUnitName = js ''Sound'', lessonPlanName = js ''Plan 1'',
       equipment = [JString (js ''tv'')], type = Book \<rparr>"

definition sampleBooking :: booking where
  "sampleBooking =
     bookingData_of.extend sampleData
       (booking_of.fields 17 Booked (js ''2024-07-20T02:00:00.000Z''))"

definition sampleRaw :: "js_value \<Rightarrow> raw_booking" where
  "sampleRaw e =
     \<lparr> teacherName = js ''Kru Mali'', program = ThaiProgramme, classroom = js ''P.1A TP'',
       period = 3, bookingDate = js ''2024-07-22'', learningUnitNumber = js ''1'',
       learningUnitName = js ''Sound'', lessonPlanName = js ''Plan 1'',
       equipment = e, type = Book,
       id' = 18, status = Booked, createdAt = js ''2024-07-20T02:00:05.000Z'' \<rparr>"

definition sampleStore :: store where
  "sampleStore = \<lparr> bookings = [sampleBooking], log = [] \<rparr>"

text \<open>
  A form that proposes the classroom, the period and the equipment given, on 22 July
  2024, with every other field filled in.
\<close>

definition sampleForm :: "jstring \<Rightarrow> int \<Rightarrow> jstring list \<Rightarrow> form" where
  "sampleForm room p items =
     \<lparr> type_in = Book, teacherName_in = js ''Kru Somchai'', program_in = Some ThaiProgramme,
       classroom_in = room, period_in = Some p, bookingDate_in = js ''2024-07-22'',
       learningUnitNumber_in = js ''2'', learningUnitName_in = js ''Light'',
       lessonPlanName_in = js ''Plan 2'', selectedEquipment = items,
       otherEquipment = [] \<rparr>"

text \<open>The sample booking with a space after the name of its classroom.\<close>

definition paddedBooking :: booking where
  "paddedBooking = sampleBooking \<lparr> classroom := js ''P.1A TP '' \<rparr>"

text \<open>What the server answers to a creation request.\<close>

definition serverBooking :: raw_booking where
  "serverBooking = sampleRaw (JString (js ''projector, hdmi cable''))"

text \<open>
  A second submission in the millisecond of the first: the cache already holds the
  placeholder of the first creation, still pending, when \<open>createBooking\<close> is called again
  and \<open>Date.now()\<close> gives the same number.
\<close>

definition pendingStore :: store where
  "pendingStore =
     createBooking_begin 1721600000000 (js ''2024-07-21T22:13:20.000Z'') sampleData sampleStore"

definition secondData :: bookingData where
  "secondData = sampleData \<lparr> classroom := js ''P.2A TP'', equipment := [JString (js ''remote'')] \<rparr>"

text \<open>The sample booking stored with a time stamp of 17:00 UTC.\<close>

definition lateBooking :: booking where
  "lateBooking = sampleBooking \<lparr> bookingDate := js ''2024-07-22T17:00:00.000Z'' \<rparr>"

text \<open>The sample booking once cancelled.\<close>

definition cancelledBooking :: booking where
  "cancelledBooking = sampleBooking \<lparr> status := Cancelled \<rparr>"

text \<open>
  The sample booking stored with a time stamp of 02:00 UTC, nine in the morning of the
  same day in Bangkok.
\<close>

definition morningBooking :: booking where
  "morningBooking = sampleBooking \<lparr> bookingDate := js ''2024-07-22T02:00:00.000Z'' \<rparr>"

text \<open>
  A cache of three bookings, with ids 19, 17 and 16, and the cache as an earlier render
  saw it, before the booking with id 19 arrived.
\<close>

definition renderedCache :: "booking list" where
  "renderedCache = [sampleBooking, sampleBooking \<lparr> id' := 16, period := 2 \<rparr>]"

definition liveStore :: store where
  "liveStore =
     \<lparr> bookings = sampleBooking \<lparr> id' := 19, period := 5 \<rparr> # renderedCache, log = [] \<rparr>"

text \<open>A booking stored with the last millisecond of 2024 in UTC.\<close>

definition newYearBooking :: booking where
  "newYearBooking = sampleBooking \<lparr> bookingDate := js ''2024-12-31T23:59:59.999Z'' \<rparr>"

section \<open>Strings: split and trim\<close>

lemma splitOn_not_Nil: "splitOn sep s \<noteq> []"
  by (induction s) (auto split: list.splits)

lemma splitOn_no_sep: "w \<in> set (splitOn sep s) \<Longrightarrow> sep \<notin> set w"
  by (induction s arbitrary: w) (auto split: list.splits if_splits)

lemma concat_splitOn: "concat (splitOn sep s) = filter (\<lambda>c. c \<noteq> sep) s"
  by (induction s) (auto split: list.splits)

lemma length_splitOn: "length (splitOn sep s) = Suc (length (filter (\<lambda>c. c = sep) s))"
  by (induction s) (auto split: list.splits)

lemma strip_fixed:
  assumes "xs \<noteq> []" "\<not> P (hd xs)" "\<not> P (last xs)"
  shows "rev (dropWhile P (rev (dropWhile P xs))) = xs"
proof -
  have fr: "dropWhile P xs = xs"
    using assms by (cases xs) auto
  have bk: "dropWhile P (rev xs) = rev xs"
    using assms by (cases xs rule: rev_cases) auto
  show ?thesis by (simp add: fr bk)
qed

lemma last_dropWhile_keep: "dropWhile P xs \<noteq> [] \<Longrightarrow> last (dropWhile P xs) = last xs"
  by (induction xs) (auto split: if_splits)

lemma trim_Nil: "trim [] = []"
  by (simp add: trim_def)

lemma trim_ends:
  "trim s = [] \<or> (\<not> isWhiteSpace (hd (trim s)) \<and> \<not> isWhiteSpace (last (trim s)))"
proof (cases "trim s = []")
  case True
  then show ?thesis by simp
next
  case False
  define t where "t = dropWhile isWhiteSpace s"
  define u where "u = dropWhile isWhiteSpace (rev t)"
  have ts: "trim s = rev u"
    by (simp add: trim_def t_def u_def)
  with False have u: "u \<noteq> []" by simp
  then have t: "t \<noteq> []" by (auto simp: u_def)
  have "\<not> isWhiteSpace (hd u)"
    using u unfolding u_def by (rule hd_dropWhile)
  then have lst: "\<not> isWhiteSpace (last (trim s))"
    using u by (simp add: ts last_rev)
  have "last u = last (rev t)"
    using u unfolding u_def by (rule last_dropWhile_keep)
  then have "hd (trim s) = hd t"
    using u t by (simp add: ts hd_rev last_rev)
  moreover have "\<not> isWhiteSpace (hd t)"
    using t unfolding t_def by (rule hd_dropWhile)
  ultimately show ?thesis using lst by simp
qed

lemma trim_trim: "trim (trim s) = trim s"
proof (cases "trim s = []")
  case True
  then show ?thesis by (simp add: trim_Nil)
next
  case False
  with trim_ends [of s]
  have "\<not> isWhiteSpace (hd (trim s))" "\<not> isWhiteSpace (last (trim s))" by auto
  with False show ?thesis
    unfolding trim_def [of "trim s"] by (rule strip_fixed)
qed

lemma set_trim: "c \<in> set (trim s) \<Longrightarrow> c \<in> set s"
  unfolding trim_def by (metis set_rev set_dropWhileD)

section \<open>sanitizeBooking\<close>

lemma isString_iff: "isString v \<longleftrightarrow> (\<exists>s. v = JString s)"
  by (cases v) (simp_all add: isString_def)

lemma isArray_iff: "isArray v \<longleftrightarrow> (\<exists>xs. v = JArray xs)"
  by (cases v) (simp_all add: isArray_def)

lemma equipmentArray_other:
  "\<not> isArray v \<Longrightarrow> \<not> isString v \<Longrightarrow> equipmentArray v = []"
  by (cases v) (simp_all add: equipmentArray_def isArray_def isString_def)

lemma sanitize_string_items:
  assumes "e \<in> set (equipmentArray (JString s))"
  shows "\<exists>w. e = JString w \<and> w \<noteq> [] \<and> trim w = w \<and> comma \<notin> set w"
proof -
  from assms obtain p where p: "p \<in> set (splitOn comma s)" and e: "e = JString (trim p)"
    and ne: "trim p \<noteq> []"
    by (auto simp: equipmentArray_def)
  have "comma \<notin> set p" using p by (rule splitOn_no_sep)
  then have "comma \<notin> set (trim p)" using set_trim [of comma p] by auto
  then show ?thesis using ne e by (simp add: trim_trim)
qed

text \<open>
  An array is taken as it is even when its items are not strings, although the comment
  above the function promises a booking with \<open>equipment: string[]\<close>.
\<close>

lemma sanitizeBooking_array_of_other_values:
  "equipment (sanitizeBooking (sampleRaw (JArray [JNumber 1, JNull]))) = [JNumber 1, JNull]"
  by (simp add: sanitizeBooking_def equipmentArray_def sampleRaw_def)

text \<open>
  C3, as stated, fails: an array is passed through as it is, so an array of strings that
  holds an empty string gives an equipment list that holds an empty string.
\<close>

theorem sanitizeBooking_array_keeps_empty_item:
  "JString [] \<in> set (equipment (sanitizeBooking
                                  (sampleRaw (JArray [JString (js ''tv''), JString []]))))"
  by (simp add: sanitizeBooking_def equipmentArray_def sampleRaw_def)

text \<open>
  C3, amended: after \<open>sanitizeBooking\<close>, an equipment field that held an array of strings
  holds that array unchanged (its items are neither trimmed nor filtered, so they may be
  empty), an ordered list of strings; one that held a string holds the pieces of the
  string between the commas, trimmed, without the empty ones and in order, so that every
  item is a non-empty string with no white space at either end and no comma; one that
  held neither an array nor a string holds the empty list. Nothing is said of an array
  with items that are not strings.
\<close>

theorem sanitizeBooking_equipment:
  "(equipment b = JArray xs \<and> list_all isString xs \<longrightarrow>
      equipment (sanitizeBooking b) = xs
      \<and> list_all isString (equipment (sanitizeBooking b)))
   \<and> (equipment b = JString s \<longrightarrow>
        equipment (sanitizeBooking b)
          = map JString (filter (\<lambda>e. length e > 0) (map trim (splitOn comma s)))
        \<and> (\<forall>e \<in> set (equipment (sanitizeBooking b)).
              \<exists>w. e = JString w \<and> w \<noteq> [] \<and> trim w = w \<and> comma \<notin> set w))
   \<and> (\<not> isArray (equipment b) \<and> \<not> isString (equipment b) \<longrightarrow>
        equipment (sanitizeBooking b) = [])"
proof (intro conjI impI)
  assume a: "equipment b = JArray xs \<and> list_all isString xs"
  then show eq: "equipment (sanitizeBooking b) = xs"
    by (simp add: sanitizeBooking_def equipmentArray_def)
  from a show "list_all isString (equipment (sanitizeBooking b))"
    by (simp add: eq)
next
  assume "\<not> isArray (equipment b) \<and> \<not> isString (equipment b)"
  then show "equipment (sanitizeBooking b) = []"
    by (simp add: sanitizeBooking_def equipmentArray_other)
next
  assume s: "equipment b = JString s"
  then show "equipment (sanitizeBooking b)
          = map JString (filter (\<lambda>e. length e > 0) (map trim (splitOn comma s)))"
    by (simp add: sanitizeBooking_def equipmentArray_def)
next
  assume s: "equipment b = JString s"
  then have "equipment (sanitizeBooking b) = equipmentArray (JString s)"
    by (simp add: sanitizeBooking_def)
  then show "\<forall>e \<in> set (equipment (sanitizeBooking b)).
              \<exists>w. e = JString w \<and> w \<noteq> [] \<and> trim w = w \<and> comma \<notin> set w"
    using sanitize_string_items by simp
qed

theorem sanitizeBooking_equipment_witness:
  "equipment (sampleRaw (JArray [JString (js ''tv''), JString []]))
     = JArray [JString (js ''tv''), JString []]
   \<and> list_all isString [JString (js ''tv''), JString []]
   \<and> equipment (sanitizeBooking (sampleRaw (JArray [JString (js ''tv''), JString []])))
       = [JString (js ''tv''), JString []]
   \<and> equipment (sampleRaw (JString (js ''tv, remote,, ''))) = JString (js ''tv, remote,, '')
   \<and> equipment (sanitizeBooking (sampleRaw (JString (js ''tv, remote,, ''))))
       = [JString (js ''tv''), JString (js ''remote'')]
   \<and> (\<exists>w. JString (js ''remote'') = JString w \<and> w \<noteq> [] \<and> trim w = w \<and> comma \<notin> set w)
   \<and> \<not> isArray (equipment (sampleRaw JNull)) \<and> \<not> isString (equipment (sampleRaw JNull))
   \<and> equipment (sanitizeBooking (sampleRaw JNull)) = []"
proof -
  have a: "equipment (sampleRaw (JArray [JString (js ''tv''), JString []]))
             = JArray [JString (js ''tv''), JString []]
           \<and> list_all isString [JString (js ''tv''), JString []]"
    by (simp add: sampleRaw_def isString_def)
  have s: "equipment (sampleRaw (JString (js ''tv, remote,, ''))) = JString (js ''tv, remote,, '')"
    by (simp add: sampleRaw_def)
  have o: "\<not> isArray (equipment (sampleRaw JNull)) \<and> \<not> isString (equipment (sampleRaw JNull))"
    by (simp add: sampleRaw_def isArray_def isString_def)
  have pieces: "map JString (filter (\<lambda>e. length e > 0)
                   (map trim (splitOn comma (js ''tv, remote,, ''))))
                  = [JString (js ''tv''), JString (js ''remote'')]"
    by code_simp
  note A = sanitizeBooking_equipment
             [where b = "sampleRaw (JArray [JString (js ''tv''), JString []])"
                and xs = "[JString (js ''tv''), JString []]"]
  note S = sanitizeBooking_equipment
             [where b = "sampleRaw (JString (js ''tv, remote,, ''))"
                and s = "js ''tv, remote,, ''"]
  note O = sanitizeBooking_equipment [where b = "sampleRaw JNull"]
  note S2 = S [THEN conjunct2, THEN conjunct1, THEN mp, OF s]
  note 1 = A [THEN conjunct1, THEN mp, OF a, THEN conjunct1]
  have 2: "equipment (sanitizeBooking (sampleRaw (JString (js ''tv, remote,, ''))))
             = [JString (js ''tv''), JString (js ''remote'')]"
    by (rule trans [OF S2 [THEN conjunct1] pieces])
  have "\<forall>e \<in> set [JString (js ''tv''), JString (js ''remote'')].
           \<exists>w. e = JString w \<and> w \<noteq> [] \<and> trim w = w \<and> comma \<notin> set w"
    using S2 [THEN conjunct2] by (simp only: 2)
  then have 3: "\<exists>w. JString (js ''remote'') = JString w \<and> w \<noteq> [] \<and> trim w = w
                      \<and> comma \<notin> set w"
    by (rule bspec) (simp only: list.set insert_iff simp_thms)
  note 4 = O [THEN conjunct2, THEN conjunct2, THEN mp, OF o]
  show ?thesis
    by (intro conjI a [THEN conjunct1] a [THEN conjunct2] 1 s 2 3
          o [THEN conjunct1] o [THEN conjunct2] 4)
qed

section \<open>The conflict check\<close>

lemma set_activeStatuses: "set activeStatuses = {Booked, InUse, AwaitingReturn}"
  by (auto simp: activeStatuses_def)

lemma active_iff:
  "status b \<in> set activeStatuses \<longleftrightarrow> status b \<noteq> Returned \<and> status b \<noteq> Cancelled"
  by (cases "status b") (auto simp: activeStatuses_def)

lemma set_bookingsAtSameTime:
  "set (bookingsAtSameTime bs d p)
     = {b \<in> set bs. status b \<in> set activeStatuses \<and> take 10 (bookingDate b) = d \<and> period b = p}"
  by (auto simp: bookingsAtSameTime_def substring0_def Let_def)

lemma isClassroomConflict_iff:
  "isClassroomConflict bs d p c \<longleftrightarrow>
     (\<exists>b \<in> set bs. status b \<in> set activeStatuses \<and> take 10 (bookingDate b) = d
         \<and> period b = p \<and> classroom b = c)"
  unfolding isClassroomConflict_def list_ex_iff set_bookingsAtSameTime by blast

lemma conflictCheck_classroom:
  "conflictCheck bs d p c eqs = ClassroomConflict \<longleftrightarrow> isClassroomConflict bs d p c"
  by (simp add: conflictCheck_def split: sum.splits)

text \<open>
  On bookings whose equipment items are all strings, collecting the booked equipment
  does not throw.
\<close>

lemma trimItems_strings:
  "list_all isString xs \<Longrightarrow>
     \<exists>r. trimItems xs = Inr r \<and> set r = {trim s |s. JString s \<in> set xs}"
proof (induction xs)
  case Nil
  then show ?case by simp
next
  case (Cons x xs)
  then obtain s where x: "x = JString s" by (auto simp: isString_iff)
  from Cons obtain r where r: "trimItems xs = Inr r" "set r = {trim s |s. JString s \<in> set xs}"
    by auto
  have "trimItems (x # xs) = Inr (trim s # r)" by (simp add: x r(1))
  moreover have "set (trim s # r) = {trim t |t. JString t \<in> set (x # xs)}"
    using r(2) x by auto
  ultimately show ?case by blast
qed

lemma flatTrimItems_strings:
  "\<forall>b \<in> set bs. list_all isString (equipment b) \<Longrightarrow>
     \<exists>r. flatTrimItems bs = Inr r
         \<and> set r = {trim s |s b. b \<in> set bs \<and> JString s \<in> set (equipment b)}"
proof (induction bs)
  case Nil
  then show ?case by simp
next
  case (Cons b bs)
  then obtain items where i: "trimItems (equipment b) = Inr items"
      "set items = {trim s |s. JString s \<in> set (equipment b)}"
    using trimItems_strings [of "equipment b"] by auto
  from Cons obtain r where r: "flatTrimItems bs = Inr r"
      "set r = {trim s |s b. b \<in> set bs \<and> JString s \<in> set (equipment b)}"
    by auto
  have "flatTrimItems (b # bs) = Inr (items @ r)" by (simp add: i(1) r(1))
  moreover have "set (items @ r)
                   = {trim s |s b'. b' \<in> set (b # bs) \<and> JString s \<in> set (equipment b')}"
    using i(2) r(2) by auto
  ultimately show ?case by blast
qed

text \<open>
  The verdict on a cache whose equipment items are all strings: a classroom conflict
  when some active booking with the proposed date as the first ten characters of its
  stored date and with the proposed period has the proposed classroom string; otherwise
  an equipment conflict when such a booking holds an item equal, after trimming both, to
  a proposed item; otherwise acceptance.
\<close>

lemma conflictCheck_on_string_items:
  assumes "\<forall>b \<in> set bs. list_all isString (equipment b)"
  shows "conflictCheck bs d p c eqs =
     (if \<exists>b \<in> set bs. status b \<in> {Booked, InUse, AwaitingReturn}
            \<and> take 10 (bookingDate b) = d \<and> period b = p \<and> classroom b = c
      then ClassroomConflict
      else if \<exists>b \<in> set bs. status b \<in> {Booked, InUse, AwaitingReturn}
            \<and> take 10 (bookingDate b) = d \<and> period b = p
            \<and> (\<exists>s r. JString s \<in> set (equipment b) \<and> r \<in> set eqs \<and> trim s = trim r)
      then EquipmentConflict
      else Accepted)"
proof -
  have "\<forall>b \<in> set (bookingsAtSameTime bs d p). list_all isString (equipment b)"
    using assms by (simp add: set_bookingsAtSameTime)
  from flatTrimItems_strings [OF this]
  obtain all where all: "allBookedEquipmentAtTime bs d p = Inr all"
      "set all = {trim s |s b. b \<in> set (bookingsAtSameTime bs d p)
                               \<and> JString s \<in> set (equipment b)}"
    by (auto simp: allBookedEquipmentAtTime_def)
  have e: "isEquipmentConflict all eqs \<longleftrightarrow>
          (\<exists>b \<in> set bs. status b \<in> {Booked, InUse, AwaitingReturn}
            \<and> take 10 (bookingDate b) = d \<and> period b = p
            \<and> (\<exists>s r. JString s \<in> set (equipment b) \<and> r \<in> set eqs \<and> trim s = trim r))"
    unfolding isEquipmentConflict_def list_ex_iff all(2) set_bookingsAtSameTime
      set_activeStatuses
    by (simp only: mem_Collect_eq Bex_def) metis
  have c: "isClassroomConflict bs d p c \<longleftrightarrow>
          (\<exists>b \<in> set bs. status b \<in> {Booked, InUse, AwaitingReturn}
            \<and> take 10 (bookingDate b) = d \<and> period b = p \<and> classroom b = c)"
    unfolding isClassroomConflict_iff set_activeStatuses ..
  show ?thesis
    unfolding conflictCheck_def all(1) c by (simp only: sum.case e)
qed

lemma handleSubmit_incomplete:
  "formIncomplete f \<Longrightarrow> handleSubmit f now nowISO response st = (st, ValidationError)"
  by (simp add: handleSubmit_def)

lemma handleSubmit_complete:
  "\<not> formIncomplete f \<Longrightarrow>
     handleSubmit f now nowISO response st =
       (case conflictCheck (bookings st) (bookingDate_in f) (Number (period_in f))
               (classroom_in f) (finalEquipmentList f) of
          ClassroomConflict \<Rightarrow> (st, Rejected ClassroomConflict)
        | EquipmentConflict \<Rightarrow> (st, Rejected EquipmentConflict)
        | Threw e \<Rightarrow> (st, BookingSaveError)
        | Accepted \<Rightarrow>
            (fst (createBooking now nowISO (submittedData f) response st),
             case response of Inr _ \<Rightarrow> BookingSuccess | Inl _ \<Rightarrow> BookingSaveError))"
  by (simp add: handleSubmit_def createBooking_def createBooking_settle_def
           split: verdict.splits sum.splits)

lemma log_createBooking:
  "log (fst (createBooking now nowISO bookingData response st)) =
     log st @ [SetBookings (optimisticBooking now nowISO bookingData # bookings st),
               Sent (CreateBookingReq bookingData),
               SetBookings (bookings (fst (createBooking now nowISO bookingData response st)))]"
  by (simp add: createBooking_def createBooking_settle_def createBooking_begin_def
        setBookings_def send_def Let_def split: sum.splits)

text \<open>
  C1, as stated, fails: the classroom is compared as it is stored, without trimming. An
  active booking of the same date and period whose classroom differs from the proposed
  one only by a space at the end raises no classroom conflict.
\<close>

theorem classroom_match_is_not_trimmed:
  "status paddedBooking = Booked
   \<and> take 10 (bookingDate paddedBooking) = js ''2024-07-22''
   \<and> period paddedBooking = 3
   \<and> trim (classroom paddedBooking) = trim (js ''P.1A TP'')
   \<and> conflictCheck [paddedBooking] (js ''2024-07-22'') 3 (js ''P.1A TP'') [js ''remote'']
       = Accepted"
  by code_simp

text \<open>
  C1, amended: if some active booking (status Booked, In Use or Awaiting Return) of the
  proposed period has a classroom string equal to the proposed one as stored (an exact
  match, neither trimmed nor case-folded) and is on the proposed calendar date, being
  stored either with that plain date string or with a time stamp whose first ten
  characters and whose calendar day in Bangkok are both that date, then the conflict
  check answers ClassroomConflict; and it answers ClassroomConflict only if some active
  booking of the proposed period has exactly the proposed classroom string.
  \<open>handleSubmit\<close> ends with the classroom-conflict dialog exactly when the form is
  complete and the check gives ClassroomConflict, and then the store is as before:
  nothing was sent and the cache was not written. Nothing is said of a stored time stamp
  whose first ten characters are not its calendar day in Bangkok.
\<close>

theorem classroom_conflict_rejected:
  "(b \<in> set bs \<and> status b \<in> {Booked, InUse, AwaitingReturn} \<and> period b = p
      \<and> classroom b = c
      \<and> (bookingDate b = d \<and> length d = 10
         \<or> take 10 (bookingDate b) = d \<and> bangkokDate engine (bookingDate b) = Inr d)
      \<longrightarrow> conflictCheck bs d p c eqs = ClassroomConflict)
   \<and> (conflictCheck bs d p c eqs = ClassroomConflict \<longrightarrow>
        (\<exists>b \<in> set bs. status b \<in> {Booked, InUse, AwaitingReturn} \<and> period b = p
            \<and> classroom b = c))
   \<and> (handleSubmit f now nowISO response st = (st', Rejected ClassroomConflict) \<longleftrightarrow>
        \<not> formIncomplete f \<and> st' = st
        \<and> conflictCheck (bookings st) (bookingDate_in f) (Number (period_in f))
             (classroom_in f) (finalEquipmentList f) = ClassroomConflict)"
proof (intro conjI impI)
  assume a: "b \<in> set bs \<and> status b \<in> {Booked, InUse, AwaitingReturn} \<and> period b = p
      \<and> classroom b = c
      \<and> (bookingDate b = d \<and> length d = 10
         \<or> take 10 (bookingDate b) = d \<and> bangkokDate engine (bookingDate b) = Inr d)"
  then have "take 10 (bookingDate b) = d" by auto
  with a have "isClassroomConflict bs d p c"
    unfolding isClassroomConflict_iff set_activeStatuses by blast
  then show "conflictCheck bs d p c eqs = ClassroomConflict"
    by (simp add: conflictCheck_classroom)
next
  assume "conflictCheck bs d p c eqs = ClassroomConflict"
  then have "isClassroomConflict bs d p c"
    by (simp add: conflictCheck_classroom)
  then show "\<exists>b \<in> set bs. status b \<in> {Booked, InUse, AwaitingReturn} \<and> period b = p
            \<and> classroom b = c"
    unfolding isClassroomConflict_iff set_activeStatuses by blast
next
  show "handleSubmit f now nowISO response st = (st', Rejected ClassroomConflict) \<longleftrightarrow>
        \<not> formIncomplete f \<and> st' = st
        \<and> conflictCheck (bookings st) (bookingDate_in f) (Number (period_in f))
             (classroom_in f) (finalEquipmentList f) = ClassroomConflict"
  proof (cases "formIncomplete f")
    case True
    then show ?thesis by (simp add: handleSubmit_incomplete)
  next
    case False
    then show ?thesis
      by (auto simp: handleSubmit_complete split: verdict.splits sum.splits)
  qed
qed

theorem classroom_conflict_rejected_witness:
  "sampleBooking \<in> set [morningBooking, sampleBooking]
   \<and> status sampleBooking \<in> {Booked, InUse, AwaitingReturn} \<and> period sampleBooking = 3
   \<and> classroom sampleBooking = js ''P.1A TP''
   \<and> bookingDate sampleBooking = js ''2024-07-22'' \<and> length (js ''2024-07-22'') = 10
   \<and> conflictCheck [morningBooking, sampleBooking] (js ''2024-07-22'') 3 (js ''P.1A TP'')
        [js ''remote''] = ClassroomConflict
   \<and> morningBooking \<in> set [morningBooking]
   \<and> status morningBooking \<in> {Booked, InUse, AwaitingReturn} \<and> period morningBooking = 3
   \<and> classroom morningBooking = js ''P.1A TP''
   \<and> take 10 (bookingDate morningBooking) = js ''2024-07-22''
   \<and> bangkokDate (\<lambda>_. None) (bookingDate morningBooking) = Inr (js ''2024-07-22'')
   \<and> conflictCheck [morningBooking] (js ''2024-07-22'') 3 (js ''P.1A TP'') [js ''remote'']
       = ClassroomConflict
   \<and> (\<exists>b \<in> set [morningBooking]. status b \<in> {Booked, InUse, AwaitingReturn} \<and> period b = 3
          \<and> classroom b = js ''P.1A TP'')
   \<and> \<not> formIncomplete (sampleForm (js ''P.1A TP'') 3 [js ''remote''])
   \<and> handleSubmit (sampleForm (js ''P.1A TP'') 3 [js ''remote'']) 1721600000000
         (js ''2024-07-21T22:13:20.000Z'') (Inl (Error (js ''Failed to fetch''))) sampleStore
       = (sampleStore, Rejected ClassroomConflict)"
proof -
  note P = classroom_conflict_rejected
             [where b = sampleBooking and bs = "[morningBooking, sampleBooking]"
                and d = "js ''2024-07-22''" and p = 3 and c = "js ''P.1A TP''"
                and eqs = "[js ''remote'']" and engine = "\<lambda>_. None"]
  note T = classroom_conflict_rejected
             [where b = morningBooking and bs = "[morningBooking]"
                and d = "js ''2024-07-22''" and p = 3 and c = "js ''P.1A TP''"
                and eqs = "[js ''remote'']" and engine = "\<lambda>_. None"
                and f = "sampleForm (js ''P.1A TP'') 3 [js ''remote'']"
                and now = 1721600000000 and nowISO = "js ''2024-07-21T22:13:20.000Z''"
                and response = "Inl (Error (js ''Failed to fetch''))"
                and st = sampleStore and st' = sampleStore]
  have p1: "sampleBooking \<in> set [morningBooking, sampleBooking]
      \<and> status sampleBooking \<in> {Booked, InUse, AwaitingReturn} \<and> period sampleBooking = 3
      \<and> classroom sampleBooking = js ''P.1A TP''
      \<and> bookingDate sampleBooking = js ''2024-07-22'' \<and> length (js ''2024-07-22'') = 10"
    by code_simp
  then have pre1: "sampleBooking \<in> set [morningBooking, sampleBooking]
      \<and> status sampleBooking \<in> {Booked, InUse, AwaitingReturn} \<and> period sampleBooking = 3
      \<and> classroom sampleBooking = js ''P.1A TP''
      \<and> (bookingDate sampleBooking = js ''2024-07-22'' \<and> length (js ''2024-07-22'') = 10
         \<or> take 10 (bookingDate sampleBooking) = js ''2024-07-22''
           \<and> bangkokDate (\<lambda>_. None) (bookingDate sampleBooking) = Inr (js ''2024-07-22''))"
    by blast
  note 1 = P [THEN conjunct1, THEN mp, OF pre1]
  have p2: "morningBooking \<in> set [morningBooking]
      \<and> status morningBooking \<in> {Booked, InUse, AwaitingReturn} \<and> period morningBooking = 3
      \<and> classroom morningBooking = js ''P.1A TP''
      \<and> take 10 (bookingDate morningBooking) = js ''2024-07-22''
      \<and> bangkokDate (\<lambda>_. None) (bookingDate morningBooking) = Inr (js ''2024-07-22'')"
    by code_simp
  then have pre2: "morningBooking \<in> set [morningBooking]
      \<and> status morningBooking \<in> {Booked, InUse, AwaitingReturn} \<and> period morningBooking = 3
      \<and> classroom morningBooking = js ''P.1A TP''
      \<and> (bookingDate morningBooking = js ''2024-07-22'' \<and> length (js ''2024-07-22'') = 10
         \<or> take 10 (bookingDate morningBooking) = js ''2024-07-22''
           \<and> bangkokDate (\<lambda>_. None) (bookingDate morningBooking) = Inr (js ''2024-07-22''))"
    by blast
  note 2 = T [THEN conjunct1, THEN mp, OF pre2]
  note 3 = T [THEN conjunct2, THEN conjunct1, THEN mp, OF 2]
  have pre: "\<not> formIncomplete (sampleForm (js ''P.1A TP'') 3 [js ''remote''])
     \<and> sampleStore = sampleStore
     \<and> conflictCheck (bookings sampleStore)
          (bookingDate_in (sampleForm (js ''P.1A TP'') 3 [js ''remote'']))
          (Number (period_in (sampleForm (js ''P.1A TP'') 3 [js ''remote''])))
          (classroom_in (sampleForm (js ''P.1A TP'') 3 [js ''remote'']))
          (finalEquipmentList (sampleForm (js ''P.1A TP'') 3 [js ''remote''])) = ClassroomConflict"
    by code_simp
  note 5 = T [THEN conjunct2, THEN conjunct2, THEN iffD2, OF pre]
  show ?thesis
    by (intro conjI) (use p1 p2 1 2 3 pre 5 in blast)+
qed

text \<open>
  C2 says that an active booking sharing the proposed date and period, with an
  equipment item equal (after trimming) to a proposed one, makes the conflict check
  answer EquipmentConflict unless a classroom conflict applies. The code misses the
  conflict for the booking stored as \<open>2024-07-22T17:00:00.000Z\<close>, which is midnight of 23
  July in Bangkok: the schedule grid shows it on 23 July, in period 3, with its
  television, but a proposal for 23 July, period 3, another classroom and the same
  television is accepted and the booking is created. The check compares the proposed
  date with the first ten characters of the stored string, which are the UTC day.
\<close>

theorem equipment_conflict_missed_on_bangkok_day:
  "status lateBooking = Booked \<and> period lateBooking = 3
   \<and> equipment lateBooking = [JString (js ''tv'')]
   \<and> bangkokDate engine (bookingDate lateBooking) = Inr (js ''2024-07-23'')
   \<and> bookingDetails engine [lateBooking] (js ''2024-07-23'') (js ''P.1A TP'') 3
       = Inr (Some lateBooking)
   \<and> conflictCheck [lateBooking] (js ''2024-07-23'') 3 (js ''P.2A TP'') [js ''tv'']
       = Accepted
   \<and> snd (handleSubmit
            (sampleForm (js ''P.2A TP'') 3 [js ''tv''] \<lparr> bookingDate_in := js ''2024-07-23'' \<rparr>)
            1721600000000 (js ''2024-07-21T22:13:20.000Z'') (Inr serverBooking)
            \<lparr> bookings = [lateBooking], log = [] \<rparr>)
       = BookingSuccess"
  by code_simp

section \<open>The booking store\<close>

lemma id'_optimisticBooking: "id' (optimisticBooking now nowISO data) = now"
  by (simp add: optimisticBooking_def bookingData_of.extend_def booking_of.fields_def)


lemma filter_fresh: "k \<notin> id' ` set bs \<Longrightarrow> filter (\<lambda>b. id' b \<noteq> k) bs = bs"
  by (induction bs) auto

lemma map_fresh: "k \<notin> id' ` set bs \<Longrightarrow> map (\<lambda>b. if id' b = k then x else b) bs = bs"
  by (induction bs) auto

lemma createBooking_begin_eq:
  "createBooking_begin now nowISO data st =
     st \<lparr> bookings := optimisticBooking now nowISO data # bookings st,
          log := log st @ [SetBookings (optimisticBooking now nowISO data # bookings st),
                           Sent (CreateBookingReq data)] \<rparr>"
  by (simp add: createBooking_begin_def setBookings_def send_def)

lemma bookings_settle_success:
  "bookings (fst (createBooking_settle k (Inr final) st)) =
     map (\<lambda>b. if id' b = k then sanitizeBooking final else b) (bookings st)"
  by (simp add: createBooking_settle_def setBookings_def Let_def)

lemma bookings_settle_failure:
  "bookings (fst (createBooking_settle k (Inl e) st)) = filter (\<lambda>b. id' b \<noteq> k) (bookings st)"
  by (simp add: createBooking_settle_def setBookings_def)

lemma snd_settle:
  "snd (createBooking_settle k response st) = (case response of Inl e \<Rightarrow> Inl e | Inr _ \<Rightarrow> Inr ())"
  by (simp add: createBooking_settle_def Let_def split: sum.splits)


lemma bookings_createBooking_failure:
  "bookings (fst (createBooking now nowISO data (Inl e) st)) =
     filter (\<lambda>b. id' b \<noteq> now) (bookings st)"
  by (simp add: createBooking_def bookings_settle_failure createBooking_begin_eq id'_optimisticBooking)



text \<open>
  C4, as stated, fails: the failure path removes every record that carries the
  placeholder id. With the placeholder of the first creation in the cache, a second
  creation that draws the same id and fails takes the first placeholder away too, so the
  cache is not back in the state it had before the call.
\<close>

theorem createBooking_failure_removes_other_placeholder:
  "bookings pendingStore
     = [optimisticBooking 1721600000000 (js ''2024-07-21T22:13:20.000Z'') sampleData,
        sampleBooking]
   \<and> bookings (fst (createBooking 1721600000000 (js ''2024-07-21T22:13:20.000Z'') secondData
                      (Inl (Error (js ''Failed to fetch''))) pendingStore))
       = [sampleBooking]
   \<and> bookings (fst (createBooking 1721600000000 (js ''2024-07-21T22:13:20.000Z'') secondData
                      (Inl (Error (js ''Failed to fetch''))) pendingStore))
       \<noteq> bookings pendingStore"
  by code_simp

text \<open>
  C4, amended: when no record of the cache carries the id that \<open>createBooking\<close> draws
  from \<open>Date.now()\<close>, a creation whose request fails leaves the cache exactly as it was
  before the call: the cache is written twice, with the placeholder at its head and then
  without it, and the error is rethrown. After the failure no record carries the
  placeholder id; after a success, a record that carries it is the sanitized response
  of the server (both whatever the cache holds when the answer arrives).
\<close>

theorem createBooking_failure_restores_cache:
  "(now \<notin> id' ` set (bookings st) \<longrightarrow>
      bookings (fst (createBooking now nowISO data (Inl error) st)) = bookings st)
   \<and> snd (createBooking now nowISO data (Inl error) st) = Inl error
   \<and> log (fst (createBooking now nowISO data (Inl error) st)) =
        log st @ [SetBookings (optimisticBooking now nowISO data # bookings st),
                  Sent (CreateBookingReq data),
                  SetBookings (filter (\<lambda>b. id' b \<noteq> now) (bookings st))]
   \<and> (\<forall>b \<in> set (bookings (fst (createBooking_settle tempId (Inl error) st'))). id' b \<noteq> tempId)
   \<and> (\<forall>b \<in> set (bookings (fst (createBooking_settle tempId (Inr final) st'))).
         id' b = tempId \<longrightarrow> b = sanitizeBooking final)"
proof (intro conjI impI ballI)
  assume "now \<notin> id' ` set (bookings st)"
  then show "bookings (fst (createBooking now nowISO data (Inl error) st)) = bookings st"
    by (simp add: bookings_createBooking_failure filter_fresh)
next
  show "snd (createBooking now nowISO data (Inl error) st) = Inl error"
    by (simp add: createBooking_def snd_settle)
next
  show "log (fst (createBooking now nowISO data (Inl error) st)) =
        log st @ [SetBookings (optimisticBooking now nowISO data # bookings st),
                  Sent (CreateBookingReq data),
                  SetBookings (filter (\<lambda>b. id' b \<noteq> now) (bookings st))]"
    by (simp add: log_createBooking bookings_createBooking_failure)
next
  fix b assume "b \<in> set (bookings (fst (createBooking_settle tempId (Inl error) st')))"
  then show "id' b \<noteq> tempId"
    by (simp add: bookings_settle_failure)
next
  fix b assume "b \<in> set (bookings (fst (createBooking_settle tempId (Inr final) st')))"
    and "id' b = tempId"
  then show "b = sanitizeBooking final"
    by (auto simp: bookings_settle_success split: if_splits)
qed

theorem createBooking_failure_restores_cache_witness:
  "1721600000000 \<notin> id' ` set (bookings sampleStore)
   \<and> bookings (fst (createBooking 1721600000000 (js ''2024-07-21T22:13:20.000Z'') sampleData
                      (Inl (Error (js ''Failed to fetch''))) sampleStore))
       = bookings sampleStore
   \<and> sampleBooking \<in> set (bookings (fst (createBooking_settle 1721600000000
                              (Inl (Error (js ''Failed to fetch''))) pendingStore)))
   \<and> id' sampleBooking \<noteq> 1721600000000
   \<and> sanitizeBooking (serverBooking \<lparr> id' := 1721600000000 \<rparr>)
        \<in> set (bookings (fst (createBooking_settle 1721600000000
                  (Inr (serverBooking \<lparr> id' := 1721600000000 \<rparr>)) pendingStore)))
   \<and> id' (sanitizeBooking (serverBooking \<lparr> id' := 1721600000000 \<rparr>)) = 1721600000000"
proof -
  note T = createBooking_failure_restores_cache
             [where now = 1721600000000 and nowISO = "js ''2024-07-21T22:13:20.000Z''"
                and data = sampleData and error = "Error (js ''Failed to fetch'')"
                and st = sampleStore and tempId = 1721600000000 and st' = pendingStore
                and final = "serverBooking \<lparr> id' := 1721600000000 \<rparr>"]
  have fresh: "1721600000000 \<notin> id' ` set (bookings sampleStore)"
    by code_simp
  note 1 = T [THEN conjunct1, THEN mp, OF fresh]
  have m1: "sampleBooking \<in> set (bookings (fst (createBooking_settle 1721600000000
                              (Inl (Error (js ''Failed to fetch''))) pendingStore)))"
    by code_simp
  note 2 = T [THEN conjunct2, THEN conjunct2, THEN conjunct2, THEN conjunct1, THEN bspec, OF m1]
  have m2: "sanitizeBooking (serverBooking \<lparr> id' := 1721600000000 \<rparr>)
        \<in> set (bookings (fst (createBooking_settle 1721600000000
                  (Inr (serverBooking \<lparr> id' := 1721600000000 \<rparr>)) pendingStore)))"
    by code_simp
  have i2: "id' (sanitizeBooking (serverBooking \<lparr> id' := 1721600000000 \<rparr>)) = 1721600000000"
    by code_simp
  note 3 = T [THEN conjunct2, THEN conjunct2, THEN conjunct2, THEN conjunct2, THEN bspec,
              OF m2, THEN mp, OF i2]
  show ?thesis
    using 3 by (intro conjI fresh 1 m1 2 m2 i2)
qed

text \<open>
  C9, as stated, fails: the placeholder id is the clock reading and is compared with
  nothing. A second creation in the millisecond of a pending first one draws the id of
  the first placeholder; the ids of the cache are then no longer distinct, and the
  success-path replacement overwrites both placeholders.
\<close>

theorem placeholder_id_collides:
  "distinct (map id' (bookings pendingStore))
   \<and> \<not> distinct (map id' (bookings
          (createBooking_begin 1721600000000 (js ''2024-07-21T22:13:20.000Z'') secondData
             pendingStore)))
   \<and> bookings (fst (createBooking 1721600000000 (js ''2024-07-21T22:13:20.000Z'') secondData
                      (Inr serverBooking) pendingStore))
       = [sanitizeBooking serverBooking, sanitizeBooking serverBooking, sampleBooking]"
  by code_simp

text \<open>
  C9, amended: when no record of the cache carries the clock reading that
  \<open>createBooking\<close> takes as placeholder id, and the ids of the cache are pairwise
  distinct, they are still pairwise distinct once the placeholder is inserted. When the
  gateway answers and the cache holds exactly one record with the placeholder id, the
  success path replaces exactly that record, where it stands, and the failure path
  removes exactly that record.
\<close>

theorem placeholder_unique_when_fresh:
  "(now \<notin> id' ` set (bookings st) \<and> distinct (map id' (bookings st)) \<longrightarrow>
      distinct (map id' (bookings (createBooking_begin now nowISO data st))))
   \<and> (bookings st' = xs @ p # ys \<and> id' p = tempId \<and> tempId \<notin> id' ` set (xs @ ys) \<longrightarrow>
        bookings (fst (createBooking_settle tempId (Inr final) st'))
          = xs @ sanitizeBooking final # ys
        \<and> bookings (fst (createBooking_settle tempId (Inl error) st')) = xs @ ys)"
proof (intro conjI impI)
  assume "now \<notin> id' ` set (bookings st) \<and> distinct (map id' (bookings st))"
  then show "distinct (map id' (bookings (createBooking_begin now nowISO data st)))"
    by (simp add: createBooking_begin_eq id'_optimisticBooking)
next
  assume a: "bookings st' = xs @ p # ys \<and> id' p = tempId \<and> tempId \<notin> id' ` set (xs @ ys)"
  then have fx: "tempId \<notin> id' ` set xs" and fy: "tempId \<notin> id' ` set ys"
    by auto
  from a show "bookings (fst (createBooking_settle tempId (Inr final) st'))
          = xs @ sanitizeBooking final # ys"
    by (simp add: bookings_settle_success map_fresh [OF fx] map_fresh [OF fy])
  from a show "bookings (fst (createBooking_settle tempId (Inl error) st')) = xs @ ys"
    by (simp add: bookings_settle_failure filter_fresh [OF fx] filter_fresh [OF fy])
qed

theorem placeholder_unique_when_fresh_witness:
  "1721600000000 \<notin> id' ` set (bookings sampleStore)
   \<and> distinct (map id' (bookings sampleStore))
   \<and> distinct (map id' (bookings (createBooking_begin 1721600000000
         (js ''2024-07-21T22:13:20.000Z'') sampleData sampleStore)))
   \<and> bookings pendingStore
       = [] @ optimisticBooking 1721600000000 (js ''2024-07-21T22:13:20.000Z'') sampleData
            # [sampleBooking]
   \<and> id' (optimisticBooking 1721600000000 (js ''2024-07-21T22:13:20.000Z'') sampleData)
       = 1721600000000
   \<and> 1721600000000 \<notin> id' ` set ([] @ [sampleBooking])
   \<and> bookings (fst (createBooking_settle 1721600000000 (Inr serverBooking) pendingStore))
       = [] @ sanitizeBooking serverBooking # [sampleBooking]
   \<and> bookings (fst (createBooking_settle 1721600000000 (Inl (Error (js ''Failed to fetch'')))
                      pendingStore))
       = [] @ [sampleBooking]"
proof -
  note T = placeholder_unique_when_fresh
             [where now = 1721600000000 and nowISO = "js ''2024-07-21T22:13:20.000Z''"
                and data = sampleData and error = "Error (js ''Failed to fetch'')"
                and st = sampleStore and tempId = 1721600000000 and st' = pendingStore
                and final = serverBooking and xs = "[]" and ys = "[sampleBooking]"
                and p = "optimisticBooking 1721600000000 (js ''2024-07-21T22:13:20.000Z'') sampleData"]
  have pre1: "1721600000000 \<notin> id' ` set (bookings sampleStore)
                \<and> distinct (map id' (bookings sampleStore))"
    by code_simp
  note 1 = T [THEN conjunct1, THEN mp, OF pre1]
  have pre2: "bookings pendingStore
       = [] @ optimisticBooking 1721600000000 (js ''2024-07-21T22:13:20.000Z'') sampleData
            # [sampleBooking]
   \<and> id' (optimisticBooking 1721600000000 (js ''2024-07-21T22:13:20.000Z'') sampleData)
       = 1721600000000
   \<and> 1721600000000 \<notin> id' ` set ([] @ [sampleBooking])"
    by code_simp
  note 2 = T [THEN conjunct2, THEN mp, OF pre2]
  show ?thesis
    by (intro conjI pre1 [THEN conjunct1] pre1 [THEN conjunct2] 1
          pre2 [THEN conjunct1] pre2 [THEN conjunct2, THEN conjunct1]
          pre2 [THEN conjunct2, THEN conjunct2] 2 [THEN conjunct1] 2 [THEN conjunct2])
qed

text \<open>
  When the request of \<open>updateBookingStatus\<close> or of \<open>deleteBooking\<close> fails, the cache
  is set to the snapshot, which is the cache of the render that created the function,
  and the error is rethrown; no refresh is requested.
\<close>

lemma mutation_failure_sets_closure:
  "bookings (fst (updateBookingStatus sortByCreatedAt closureBookings targetId newStatus'
                     (Inl error) refresh st)) = closureBookings
   \<and> snd (updateBookingStatus sortByCreatedAt closureBookings targetId newStatus'
             (Inl error) refresh st) = Inl error
   \<and> bookings (fst (deleteBooking sortByCreatedAt closureBookings targetId
                     (Inl error) refresh st)) = closureBookings
   \<and> snd (deleteBooking sortByCreatedAt closureBookings targetId (Inl error) refresh st)
       = Inl error"
  by (simp add: updateBookingStatus_def deleteBooking_def updateBookingStatus_settle_def
        deleteBooking_settle_def setBookings_def Let_def)

text \<open>
  If the cache has not changed since that render, the failure leaves the store as it was
  before the call but for its log: the optimistic write, the request, the write of the
  snapshot.
\<close>

lemma mutation_failure_on_current_render:
  "updateBookingStatus sortByCreatedAt (bookings st) targetId newStatus' (Inl error) refresh st =
     (st \<lparr> log := log st @
              [SetBookings (map (\<lambda>b. if id' b = targetId then b \<lparr> status := newStatus' \<rparr> else b)
                              (bookings st)),
               Sent (UpdateBookingStatusReq targetId newStatus'),
               SetBookings (bookings st)] \<rparr>,
      Inl error)
   \<and> deleteBooking sortByCreatedAt (bookings st) targetId (Inl error) refresh st =
     (st \<lparr> log := log st @
              [SetBookings (filter (\<lambda>b. id' b \<noteq> targetId) (bookings st)),
               Sent (DeleteBookingReq targetId),
               SetBookings (bookings st)] \<rparr>,
      Inl error)"
  by (simp add: updateBookingStatus_def deleteBooking_def updateBookingStatus_settle_def
        deleteBooking_settle_def
        updateBookingStatus_begin_def deleteBooking_begin_def setBookings_def send_def Let_def)

text \<open>
  C5 says that \<open>updateBookingStatus\<close> and \<open>deleteBooking\<close>, when the gateway fails,
  restore the cache to the snapshot taken before the optimistic change and rethrow. The
  code rethrows, but its snapshot is not the cache at the call. With the cache holding
  the bookings 19, 17 and 16 at the call, made from a handler of the render that saw
  only 17 and 16 (booking 19 arrived while the confirmation dialog was open), a failed
  cancellation or deletion of booking 17 leaves the cache at 17 and 16: booking 19,
  which the operation never touched, is lost from the cache.
\<close>

theorem mutation_rollback_loses_later_booking:
  "map id' (bookings liveStore) = [19, 17, 16]
   \<and> map id' renderedCache = [17, 16]
   \<and> map id' (bookings (fst (updateBookingStatus sortByCreatedAt renderedCache 17 Cancelled
                               (Inl (Error (js ''Failed to fetch''))) refresh liveStore)))
       = [17, 16]
   \<and> bookings (fst (updateBookingStatus sortByCreatedAt renderedCache 17 Cancelled
                      (Inl (Error (js ''Failed to fetch''))) refresh liveStore))
       \<noteq> bookings liveStore
   \<and> snd (updateBookingStatus sortByCreatedAt renderedCache 17 Cancelled
             (Inl (Error (js ''Failed to fetch''))) refresh liveStore)
       = Inl (Error (js ''Failed to fetch''))
   \<and> map id' (bookings (fst (deleteBooking sortByCreatedAt renderedCache 17
                               (Inl (Error (js ''Failed to fetch''))) refresh liveStore)))
       = [17, 16]
   \<and> bookings (fst (deleteBooking sortByCreatedAt renderedCache 17
                      (Inl (Error (js ''Failed to fetch''))) refresh liveStore))
       \<noteq> bookings liveStore
   \<and> snd (deleteBooking sortByCreatedAt renderedCache 17
             (Inl (Error (js ''Failed to fetch''))) refresh liveStore)
       = Inl (Error (js ''Failed to fetch''))"
  by (simp add: updateBookingStatus_def deleteBooking_def updateBookingStatus_settle_def
        deleteBooking_settle_def updateBookingStatus_begin_def deleteBooking_begin_def
        setBookings_def send_def Let_def liveStore_def renderedCache_def sampleBooking_def
        sampleData_def booking_of.defs bookingData_of.defs)

text \<open>
  Once the mutating request has succeeded, a failure of the silent refresh is caught
  inside \<open>fetchBookings\<close>: the cache then keeps the optimistic state and the operation
  ends without an error.
\<close>

lemma refresh_failure_keeps_optimistic_state:
  "bookings (fst (updateBookingStatus sortByCreatedAt closureBookings targetId newStatus'
                     (Inr ()) (Inl error) st))
     = map (\<lambda>b. if id' b = targetId then b \<lparr> status := newStatus' \<rparr> else b) (bookings st)
   \<and> snd (updateBookingStatus sortByCreatedAt closureBookings targetId newStatus' (Inr ())
             (Inl error) st)
       = Inr ()
   \<and> bookings (fst (deleteBooking sortByCreatedAt closureBookings targetId (Inr ())
                     (Inl error) st))
       = filter (\<lambda>b. id' b \<noteq> targetId) (bookings st)
   \<and> snd (deleteBooking sortByCreatedAt closureBookings targetId (Inr ()) (Inl error) st)
       = Inr ()"
  by (simp add: updateBookingStatus_def deleteBooking_def updateBookingStatus_settle_def
        deleteBooking_settle_def updateBookingStatus_begin_def deleteBooking_begin_def
        fetchBookings_def setBookings_def send_def Let_def)

section \<open>The schedule projection\<close>

lemma bangkokDate_cases:
  "bangkokDate engine s = (if validDate engine s then bangkokDate engine s else Inl RangeError)"
  by (simp add: validDate_def bangkokDate_def split: option.splits)

lemma validDate_iff: "validDate engine s \<longleftrightarrow> (\<exists>t. bangkokDate engine s = Inr t)"
  by (simp add: validDate_def split: sum.splits)

lemma filterForDate_eq:
  "filterForDate engine sel bs =
     (if list_all (\<lambda>b. validDate engine (bookingDate b)) bs
      then Inr (filter (\<lambda>b. bangkokDate engine (bookingDate b) = Inr sel
                            \<and> status b \<in> set activeStatuses) bs)
      else Inl RangeError)"
proof (induction bs)
  case Nil
  then show ?case by simp
next
  case (Cons b bs)
  show ?case
  proof (cases "validDate engine (bookingDate b)")
    case True
    then obtain t where "bangkokDate engine (bookingDate b) = Inr t"
      by (auto simp: validDate_iff)
    with True Cons show ?thesis by simp
  next
    case False
    then have "bangkokDate engine (bookingDate b) = Inl RangeError"
      using bangkokDate_cases [of engine "bookingDate b"] by simp
    with False show ?thesis by simp
  qed
qed

lemma fold_upd_other:
  "k \<notin> f ` set xs \<Longrightarrow> fold (\<lambda>b m. m(f b \<mapsto> b)) xs m0 k = m0 k"
  by (induction xs arbitrary: m0) auto

lemma find_app:
  "find P (xs @ ys) = (case find P xs of Some x \<Rightarrow> Some x | None \<Rightarrow> find P ys)"
  by (induction xs) auto

lemma fold_upd_last:
  "fold (\<lambda>b m. m(f b \<mapsto> b)) xs m0 k =
     (case find (\<lambda>b. f b = k) (rev xs) of Some b \<Rightarrow> Some b | None \<Rightarrow> m0 k)"
proof (induction xs arbitrary: m0)
  case Nil
  then show ?case by simp
next
  case (Cons x xs)
  let ?F = "\<lambda>b m. m(f b \<mapsto> b)"
  have "fold ?F (x # xs) m0 k = fold ?F xs (m0(f x \<mapsto> x)) k"
    by simp
  also have "\<dots> = (case find (\<lambda>b. f b = k) (rev xs) of
                      Some b \<Rightarrow> Some b | None \<Rightarrow> (m0(f x \<mapsto> x)) k)"
    by (rule Cons.IH)
  also have "\<dots> = (case find (\<lambda>b. f b = k) (rev (x # xs)) of
                      Some b \<Rightarrow> Some b | None \<Rightarrow> m0 k)"
    by (simp add: find_app split: option.splits)
  finally show ?case .
qed

lemma find_active:
  "find P (filter Q xs) = Some b \<Longrightarrow> b \<in> set xs \<and> P b \<and> Q b"
  by (induction xs) (auto split: if_splits)

lemma bookingsForDateMap_eq:
  "bookingsForDateMap engine bs sel =
     (if list_all (\<lambda>b. validDate engine (bookingDate b)) bs
      then Inr (fold (\<lambda>b m. m(slotKey (classroom b) (period b) \<mapsto> b))
                  (filter (\<lambda>b. bangkokDate engine (bookingDate b) = Inr sel
                            \<and> status b \<in> set activeStatuses) bs) Map.empty)
      else Inl RangeError)"
  by (simp add: bookingsForDateMap_def filterForDate_eq)

lemma bookingsForDateMap_lookup:
  assumes "bookingsForDateMap engine bs sel = Inr m" and "m k = Some b"
  shows "b \<in> set bs \<and> status b \<in> set activeStatuses
           \<and> bangkokDate engine (bookingDate b) = Inr sel
           \<and> slotKey (classroom b) (period b) = k"
proof -
  let ?P = "\<lambda>b. bangkokDate engine (bookingDate b) = Inr sel \<and> status b \<in> set activeStatuses"
  from assms(1) have m: "m = fold (\<lambda>b m. m(slotKey (classroom b) (period b) \<mapsto> b)) (filter ?P bs) Map.empty"
    by (simp add: bookingsForDateMap_eq split: if_splits)
  with assms(2) have "find (\<lambda>b. slotKey (classroom b) (period b) = k) (filter ?P (rev bs)) = Some b"
    by (simp add: fold_upd_last rev_filter split: option.splits)
  from find_active [OF this] show ?thesis by simp
qed

text \<open>
  The key string determines the classroom and the period, as long as periods are not
  negative: the digits of the period follow the last hyphen of the key. On a cache whose
  stored dates are all valid, the cell of a classroom and a period then shows the last
  booking of the cache, among the active ones whose Bangkok date is the selected date,
  that has this classroom and this period.
\<close>

lemma digit_cases:
  fixes d :: int
  assumes "0 \<le> d" "d < 10"
  shows "d = 0 \<or> d = 1 \<or> d = 2 \<or> d = 3 \<or> d = 4 \<or> d = 5 \<or> d = 6 \<or> d = 7 \<or> d = 8 \<or> d = 9"
  using assms by arith

lemma digit_word:
  fixes d :: int
  assumes "0 \<le> d" "d < 10"
  shows "digitVal (48 + word_of_int d) = Some d"
  using digit_cases [OF assms] by (elim disjE) (simp_all add: digitVal_def)

lemma digit_not_minus:
  fixes d :: int
  assumes "0 \<le> d" "d < 10"
  shows "48 + (word_of_int d :: 16 word) \<noteq> 45"
  using digit_cases [OF assms] by (elim disjE) simp_all

lemma decimalFrom_snoc:
  "decimalFrom acc (xs @ [c]) =
     (case decimalFrom acc xs of
        None \<Rightarrow> None
      | Some v \<Rightarrow> (case digitVal c of None \<Rightarrow> None | Some d \<Rightarrow> Some (10 * v + d)))"
  by (induction xs arbitrary: acc) (auto split: option.splits)

lemma decimalFrom_showDec: "0 \<le> n \<Longrightarrow> decimalFrom 0 (showDec n) = Some n"
proof (induction n rule: showDec.induct)
  case (1 n)
  show ?case
  proof (cases "n < 10")
    case True
    with 1(2) show ?thesis
      by (subst showDec.simps) (simp add: digit_word)
  next
    case False
    then have ih: "decimalFrom 0 (showDec (n div 10)) = Some (n div 10)"
      using 1 by simp
    have "digitVal (48 + word_of_int (n mod 10)) = Some (n mod 10)"
      by (rule digit_word) simp_all
    with False ih show ?thesis
      by (subst showDec.simps) (simp add: decimalFrom_snoc)
  qed
qed

lemma showDec_no_minus: "0 \<le> n \<Longrightarrow> 45 \<notin> set (showDec n)"
proof (induction n rule: showDec.induct)
  case (1 n)
  show ?case
  proof (cases "n < 10")
    case True
    with 1(2) show ?thesis
      using digit_not_minus [of n] by (subst showDec.simps) simp
  next
    case False
    then have ih: "45 \<notin> set (showDec (n div 10))"
      using 1 by simp
    have "48 + (word_of_int (n mod 10) :: 16 word) \<noteq> 45"
      by (rule digit_not_minus) simp_all
    with False ih show ?thesis
      by (subst showDec.simps) auto
  qed
qed

lemma split_at_last_sep:
  assumes "xs @ c # ys = xs' @ c # ys'" and "c \<notin> set ys" and "c \<notin> set ys'"
  shows "xs = xs' \<and> ys = ys'"
proof -
  have "takeWhile (\<lambda>x. x \<noteq> c) (rev (xs @ c # ys)) = rev ys"
    using assms(2) by (auto simp: takeWhile_tail)
  moreover have "takeWhile (\<lambda>x. x \<noteq> c) (rev (xs' @ c # ys')) = rev ys'"
    using assms(3) by (auto simp: takeWhile_tail)
  ultimately have "ys = ys'" using assms(1) by simp
  with assms(1) show ?thesis by simp
qed

lemma slotKey_inj:
  assumes "0 \<le> p" "0 \<le> p'"
  shows "slotKey c p = slotKey c' p' \<longleftrightarrow> c = c' \<and> p = p'"
proof
  assume eq: "slotKey c p = slotKey c' p'"
  then have "c @ 45 # showDec p = c' @ 45 # showDec p'"
    using assms by (simp add: slotKey_def showInt_def)
  from split_at_last_sep [OF this showDec_no_minus [OF assms(1)] showDec_no_minus [OF assms(2)]]
  have c: "c = c'" and s: "showDec p = showDec p'" by simp_all
  from s have "decimalFrom 0 (showDec p) = decimalFrom 0 (showDec p')" by simp
  then have "p = p'" using assms by (simp add: decimalFrom_showDec)
  with c show "c = c' \<and> p = p'" by simp
next
  assume "c = c' \<and> p = p'"
  then show "slotKey c p = slotKey c' p'" by simp
qed

lemma find_cong_set: "(\<And>x. x \<in> set xs \<Longrightarrow> P x = Q x) \<Longrightarrow> find P xs = find Q xs"
  by (induction xs) auto

lemma projection_on_valid_dates:
  assumes valid: "list_all (\<lambda>b. validDate engine (bookingDate b)) bs"
    and periods: "\<forall>b \<in> set bs. 0 \<le> period b" and p: "0 \<le> p"
  shows "bookingDetails engine bs sel c p =
           Inr (find (\<lambda>b. classroom b = c \<and> period b = p)
                  (rev (filter (\<lambda>b. bangkokDate engine (bookingDate b) = Inr sel
                                   \<and> status b \<in> set activeStatuses) bs)))"
proof -
  let ?matching = "filter (\<lambda>b. bangkokDate engine (bookingDate b) = Inr sel
                                   \<and> status b \<in> set activeStatuses) bs"
  have "bookingDetails engine bs sel c p =
          Inr (find (\<lambda>b. slotKey (classroom b) (period b) = slotKey c p) (rev ?matching))"
    using valid
    by (simp add: bookingDetails_def bookingsForDateMap_eq fold_upd_last split: option.splits)
  moreover have "find (\<lambda>b. slotKey (classroom b) (period b) = slotKey c p) (rev ?matching)
                   = find (\<lambda>b. classroom b = c \<and> period b = p) (rev ?matching)"
  proof (rule find_cong_set)
    fix b assume "b \<in> set (rev ?matching)"
    then have "0 \<le> period b" using periods by simp
    then show "(slotKey (classroom b) (period b) = slotKey c p) = (classroom b = c \<and> period b = p)"
      using p by (rule slotKey_inj)
  qed
  ultimately show ?thesis by simp
qed

lemma bookingsAtSameTime_drop_inactive:
  "status b \<notin> set activeStatuses \<Longrightarrow>
     bookingsAtSameTime (xs @ b # ys) d p = bookingsAtSameTime (xs @ ys) d p"
  by (simp add: bookingsAtSameTime_def)

lemma bookingsAtSameTime_filter_active:
  "bookingsAtSameTime (filter (\<lambda>b. status b \<in> set activeStatuses) bs) d p
     = bookingsAtSameTime bs d p"
  by (induction bs) (auto simp: bookingsAtSameTime_def Let_def)

lemma conflictCheck_via_bookingsAtSameTime:
  "bookingsAtSameTime bs d p = bookingsAtSameTime bs' d p \<Longrightarrow>
     conflictCheck bs d p c eqs = conflictCheck bs' d p c eqs"
  by (simp add: conflictCheck_def isClassroomConflict_def isEquipmentConflict_def
        allBookedEquipmentAtTime_def)

lemma inactive_not_active: "status b \<in> {Returned, Cancelled} \<Longrightarrow> status b \<notin> set activeStatuses"
  by (auto simp: activeStatuses_def)

text \<open>
  C6: a booking whose status is Returned or Cancelled takes no part in the conflict
  check: the verdict is the same with the booking in the cache and without it, and the
  check sees the cache only through its active bookings (Booked, In Use, Awaiting
  Return). Nor does it take part in the occupancy of the schedule grid: whenever the
  projection gives a map, it gives the same map without the booking, the booking is no
  value of the map, and every value of the map is an active booking. (The projection
  formats the stored date of every booking, whatever its status, before it filters; it
  gives the same result with and without the booking when that date is a valid one.)
\<close>

theorem inactive_booking_ignored:
  "(status b \<in> {Returned, Cancelled} \<longrightarrow>
      conflictCheck (xs @ b # ys) d p c eqs = conflictCheck (xs @ ys) d p c eqs
      \<and> (validDate engine (bookingDate b) \<longrightarrow>
           bookingsForDateMap engine (xs @ b # ys) sel = bookingsForDateMap engine (xs @ ys) sel)
      \<and> (bookingsForDateMap engine (xs @ b # ys) sel = Inr m \<longrightarrow>
           bookingsForDateMap engine (xs @ ys) sel = Inr m \<and> b \<notin> ran m))
   \<and> conflictCheck bs d p c eqs
       = conflictCheck (filter (\<lambda>b. status b \<in> {Booked, InUse, AwaitingReturn}) bs) d p c eqs
   \<and> (bookingsForDateMap engine bs sel = Inr m' \<and> m' k = Some v \<longrightarrow>
        status v \<in> {Booked, InUse, AwaitingReturn})"
proof (intro conjI impI)
  assume "status b \<in> {Returned, Cancelled}"
  then have na: "status b \<notin> set activeStatuses"
    by (rule inactive_not_active)
  show "conflictCheck (xs @ b # ys) d p c eqs = conflictCheck (xs @ ys) d p c eqs"
    by (rule conflictCheck_via_bookingsAtSameTime) (rule bookingsAtSameTime_drop_inactive [OF na])
  {
    assume "validDate engine (bookingDate b)"
    then show "bookingsForDateMap engine (xs @ b # ys) sel = bookingsForDateMap engine (xs @ ys) sel"
      using na by (simp add: bookingsForDateMap_eq)
  }
  {
    assume r: "bookingsForDateMap engine (xs @ b # ys) sel = Inr m"
    then show "bookingsForDateMap engine (xs @ ys) sel = Inr m"
      using na by (simp add: bookingsForDateMap_eq split: if_splits)
    show "b \<notin> ran m"
    proof
      assume "b \<in> ran m"
      then obtain k' where "m k' = Some b" by (auto simp: ran_def)
      from bookingsForDateMap_lookup [OF r this] na show False by simp
    qed
  }
next
  show "conflictCheck bs d p c eqs
       = conflictCheck (filter (\<lambda>b. status b \<in> {Booked, InUse, AwaitingReturn}) bs) d p c eqs"
    unfolding set_activeStatuses [symmetric]
    by (rule conflictCheck_via_bookingsAtSameTime) (simp add: bookingsAtSameTime_filter_active)
next
  assume "bookingsForDateMap engine bs sel = Inr m' \<and> m' k = Some v"
  then have "status v \<in> set activeStatuses"
    using bookingsForDateMap_lookup [of engine bs sel m' k v] by simp
  then show "status v \<in> {Booked, InUse, AwaitingReturn}"
    by (simp add: set_activeStatuses)
qed

theorem inactive_booking_ignored_witness:
  "status cancelledBooking \<in> {Returned, Cancelled}
   \<and> conflictCheck ([] @ cancelledBooking # [sampleBooking]) (js ''2024-07-22'') 3
        (js ''P.2A TP'') [js ''tv'']
       = conflictCheck ([] @ [sampleBooking]) (js ''2024-07-22'') 3 (js ''P.2A TP'') [js ''tv'']
   \<and> validDate (\<lambda>_. None) (bookingDate cancelledBooking)
   \<and> bookingsForDateMap (\<lambda>_. None) ([] @ cancelledBooking # [sampleBooking]) (js ''2024-07-22'')
       = bookingsForDateMap (\<lambda>_. None) ([] @ [sampleBooking]) (js ''2024-07-22'')
   \<and> bookingsForDateMap (\<lambda>_. None) ([] @ cancelledBooking # [sampleBooking]) (js ''2024-07-22'')
       = Inr (fold (\<lambda>b m. m(slotKey (classroom b) (period b) \<mapsto> b)) [sampleBooking] Map.empty)
   \<and> cancelledBooking
        \<notin> ran (fold (\<lambda>b m. m(slotKey (classroom b) (period b) \<mapsto> b)) [sampleBooking] Map.empty)
   \<and> fold (\<lambda>b m. m(slotKey (classroom b) (period b) \<mapsto> b)) [sampleBooking] Map.empty
        (slotKey (js ''P.1A TP'') 3) = Some sampleBooking
   \<and> status sampleBooking \<in> {Booked, InUse, AwaitingReturn}"
proof -
  note T = inactive_booking_ignored
             [where b = cancelledBooking and xs = "[]" and ys = "[sampleBooking]"
                and d = "js ''2024-07-22''" and p = 3 and c = "js ''P.2A TP''"
                and eqs = "[js ''tv'']" and engine = "\<lambda>_. None" and sel = "js ''2024-07-22''"
                and bs = "[] @ cancelledBooking # [sampleBooking]" and v = sampleBooking
                and k = "slotKey (js ''P.1A TP'') 3"
                and m = "fold (\<lambda>b m. m(slotKey (classroom b) (period b) \<mapsto> b))
                            [sampleBooking] Map.empty"
                and m' = "fold (\<lambda>b m. m(slotKey (classroom b) (period b) \<mapsto> b))
                            [sampleBooking] Map.empty"]
  have c: "status cancelledBooking \<in> {Returned, Cancelled}"
    by code_simp
  note A = T [THEN conjunct1, THEN mp, OF c]
  have v: "validDate (\<lambda>_. None) (bookingDate cancelledBooking)"
    by code_simp
  note 2 = A [THEN conjunct2, THEN conjunct1, THEN mp, OF v]
  have flt: "filterForDate (\<lambda>_. None) (js ''2024-07-22'') ([] @ cancelledBooking # [sampleBooking])
               = Inr [sampleBooking]"
    by code_simp
  have bm: "bookingsForDateMap (\<lambda>_. None) ([] @ cancelledBooking # [sampleBooking])
              (js ''2024-07-22'')
              = Inr (fold (\<lambda>b m. m(slotKey (classroom b) (period b) \<mapsto> b))
                            [sampleBooking] Map.empty)"
    by (simp only: bookingsForDateMap_def flt sum.case)
  note 3 = A [THEN conjunct2, THEN conjunct2, THEN mp, OF bm, THEN conjunct2]
  have lk: "fold (\<lambda>b m. m(slotKey (classroom b) (period b) \<mapsto> b)) [sampleBooking] Map.empty
              (slotKey (js ''P.1A TP'') 3) = Some sampleBooking"
    by code_simp
  note 4 = T [THEN conjunct2, THEN conjunct2, THEN mp, OF conjI, OF bm lk]
  show ?thesis
    by (intro conjI c A [THEN conjunct1] v 2 bm 3 lk 4)
qed

text \<open>
  C8 says that for every cache and every target date the schedule projection gives a
  map from classroom and period to at most one active booking, matched on the Bangkok
  calendar date. The code gives no map for a cache that holds a booking whose stored
  date is the empty string: \<open>new Date('')\<close> is an Invalid Date, and
  \<open>Intl.DateTimeFormat.format\<close> throws a RangeError on it, which the \<open>filter\<close>
  callback does not catch. (\<open>formatDisplayDate\<close>, in the same file, tests
  \<open>isNaN(date.getTime())\<close> before it formats.)
\<close>

theorem bookingsForDateMap_invalid_date_throws:
  "bookingsForDateMap (\<lambda>_. None) [sampleBooking \<lparr> bookingDate := [] \<rparr>] (js ''2024-07-22'')
     = Inl RangeError"
  by (simp add: bookingsForDateMap_eq validDate_def bangkokDate_def Date_parse_def isoParse_def
        timeClip_def)

lemma late_day_arith:
  fixes t :: int
  assumes b: "61200000 \<le> t mod 86400000"
  shows "(t + 25200000) div 86400000 = t div 86400000 + 1"
proof -
  define q where "q = t div 86400000"
  define r where "r = t mod 86400000"
  have lt: "r < 86400000" by (simp add: r_def)
  have t: "t = q * 86400000 + r" by (simp add: q_def r_def)
  have "t + 25200000 = (r + 25200000 - 86400000) + (q + 1) * 86400000"
    using t by (simp add: algebra_simps)
  then have "(t + 25200000) div 86400000 = (q + 1) + (r + 25200000 - 86400000) div 86400000"
    by simp
  moreover have "(r + 25200000 - 86400000) div 86400000 = 0"
    using b lt by (intro div_pos_pos_trivial) (simp_all add: r_def)
  ultimately show ?thesis by (simp add: q_def)
qed

lemma late_day:
  assumes "- 1570084924000 \<le> t" and "17 * 3600000 \<le> t mod msPerDay"
  shows "(t + bangkokOffset t) div msPerDay = t div msPerDay + 1"
proof -
  have "bangkokOffset t = 25200000"
    using assms(1) by (simp add: bangkokOffset_def)
  moreover have "61200000 \<le> t mod 86400000"
    using assms(2) by (simp add: msPerDay_def)
  ultimately show ?thesis
    by (simp add: msPerDay_def late_day_arith)
qed

text \<open>
  C10: the conflict check takes a stored booking to be on the proposed date exactly when
  the first ten characters of its stored date are the proposed date string; the
  schedule projection takes it to be on the selected date exactly when the date of its
  parsed time value in the zone Asia/Bangkok, written \<open>YYYY-MM-DD\<close>, is the selected
  date string. For a time value since 1920 whose UTC time of day is 17:00:00 or later,
  the Bangkok day is the day after the UTC day. So the booking stored as
  \<open>2024-07-22T17:00:00.000Z\<close> blocks its classroom on 22 July for the conflict check
  and not on 23 July, while the grid shows it on 23 July and not on 22 July.
\<close>

theorem date_conventions_differ:
  "(b \<in> set (bookingsAtSameTime bs d p) \<longleftrightarrow>
      b \<in> set bs \<and> take 10 (bookingDate b) = d \<and> period b = p
      \<and> status b \<in> {Booked, InUse, AwaitingReturn})
   \<and> (filterForDate engine sel bs = Inr matching \<longrightarrow>
        (b \<in> set matching \<longleftrightarrow>
           b \<in> set bs \<and> bangkokDate engine (bookingDate b) = Inr sel
           \<and> status b \<in> {Booked, InUse, AwaitingReturn}))
   \<and> (- 1570084924000 \<le> t \<and> 17 * 3600000 \<le> t mod msPerDay \<longrightarrow>
        (t + bangkokOffset t) div msPerDay = t div msPerDay + 1)
   \<and> take 10 (bookingDate lateBooking) = js ''2024-07-22''
   \<and> bangkokDate engine (bookingDate lateBooking) = Inr (js ''2024-07-23'')
   \<and> conflictCheck [lateBooking] (js ''2024-07-22'') 3 (js ''P.1A TP'') [js ''remote'']
       = ClassroomConflict
   \<and> conflictCheck [lateBooking] (js ''2024-07-23'') 3 (js ''P.1A TP'') [js ''remote'']
       = Accepted
   \<and> bookingDetails engine [lateBooking] (js ''2024-07-22'') (js ''P.1A TP'') 3 = Inr None
   \<and> bookingDetails engine [lateBooking] (js ''2024-07-23'') (js ''P.1A TP'') 3
       = Inr (Some lateBooking)"
proof (intro conjI impI)
  show "b \<in> set (bookingsAtSameTime bs d p) \<longleftrightarrow>
      b \<in> set bs \<and> take 10 (bookingDate b) = d \<and> period b = p
      \<and> status b \<in> {Booked, InUse, AwaitingReturn}"
    unfolding set_bookingsAtSameTime set_activeStatuses by blast
next
  assume "filterForDate engine sel bs = Inr matching"
  then have "matching = filter (\<lambda>b. bangkokDate engine (bookingDate b) = Inr sel
                            \<and> status b \<in> set activeStatuses) bs"
    by (simp add: filterForDate_eq split: if_splits)
  then show "b \<in> set matching \<longleftrightarrow>
           b \<in> set bs \<and> bangkokDate engine (bookingDate b) = Inr sel
           \<and> status b \<in> {Booked, InUse, AwaitingReturn}"
    by (simp add: set_activeStatuses)
next
  assume "- 1570084924000 \<le> t \<and> 17 * 3600000 \<le> t mod msPerDay"
  then show "(t + bangkokOffset t) div msPerDay = t div msPerDay + 1"
    by (simp add: late_day)
next
  show "take 10 (bookingDate lateBooking) = js ''2024-07-22''"
    by code_simp
  show "bangkokDate engine (bookingDate lateBooking) = Inr (js ''2024-07-23'')"
    by code_simp
  show "conflictCheck [lateBooking] (js ''2024-07-22'') 3 (js ''P.1A TP'') [js ''remote'']
       = ClassroomConflict"
    by code_simp
  show "conflictCheck [lateBooking] (js ''2024-07-23'') 3 (js ''P.1A TP'') [js ''remote'']
       = Accepted"
    by code_simp
  show "bookingDetails engine [lateBooking] (js ''2024-07-22'') (js ''P.1A TP'') 3 = Inr None"
    by code_simp
  show "bookingDetails engine [lateBooking] (js ''2024-07-23'') (js ''P.1A TP'') 3
       = Inr (Some lateBooking)"
    by code_simp
qed

theorem date_conventions_differ_witness:
  "filterForDate (\<lambda>_. None) (js ''2025-01-01'') [newYearBooking] = Inr [newYearBooking]
   \<and> newYearBooking \<in> set [newYearBooking]
   \<and> bangkokDate (\<lambda>_. None) (bookingDate newYearBooking) = Inr (js ''2025-01-01'')
   \<and> newYearBooking \<in> set (bookingsAtSameTime [newYearBooking] (js ''2024-12-31'') 3)
   \<and> take 10 (bookingDate newYearBooking) = js ''2024-12-31''
   \<and> - 1570084924000 \<le> (1735689599999::int)
   \<and> 17 * 3600000 \<le> (1735689599999::int) mod msPerDay
   \<and> (1735689599999 + bangkokOffset 1735689599999) div msPerDay
       = 1735689599999 div msPerDay + 1"
proof -
  note T = date_conventions_differ
             [where b = newYearBooking and bs = "[newYearBooking]" and d = "js ''2024-12-31''"
                and p = 3 and engine = "\<lambda>_. None" and sel = "js ''2025-01-01''"
                and matching = "[newYearBooking]" and t = 1735689599999]
  have f: "filterForDate (\<lambda>_. None) (js ''2025-01-01'') [newYearBooking] = Inr [newYearBooking]"
    by code_simp
  have m: "newYearBooking \<in> set [newYearBooking]"
    by simp
  note 1 = T [THEN conjunct2, THEN conjunct1, THEN mp, OF f, THEN iffD1, OF m]
  have pre: "newYearBooking \<in> set [newYearBooking]
      \<and> take 10 (bookingDate newYearBooking) = js ''2024-12-31'' \<and> period newYearBooking = 3
      \<and> status newYearBooking \<in> {Booked, InUse, AwaitingReturn}"
    by code_simp
  note 2 = T [THEN conjunct1, THEN iffD2, OF pre]
  have tv: "- 1570084924000 \<le> (1735689599999::int)
              \<and> 17 * 3600000 \<le> (1735689599999::int) mod msPerDay"
    by code_simp
  note 3 = T [THEN conjunct2, THEN conjunct2, THEN conjunct1, THEN mp, OF tv]
  show ?thesis
    by (intro conjI f m 1 [THEN conjunct2, THEN conjunct1] 2 pre [THEN conjunct2, THEN conjunct1]
          tv [THEN conjunct1] tv [THEN conjunct2] 3)
qed

end
